theory Spec2Isabelle
  imports Complex_Main "HOL-Library.AList"
begin

section \<open>Inventory stock ledger: entity layer, persistence layer, service\<close>

text \<open>
  A shallow embedding of \<^verbatim>\<open>inventory_system/models.py\<close> and
  \<^verbatim>\<open>inventory_system/services.py\<close>.

  Conventions of the embedding:
  \<^item> a string holds one \<open>char\<close> per code point (all code points used are below 256);
  \<^item> Python's \<^verbatim>\<open>int\<close> is \<open>int\<close>; a \<^verbatim>\<open>float\<close> is a \<open>pyfloat\<close>, which keeps
    the three non-finite values apart because comparisons treat them differently;
  \<^item> an exception is the \<open>Inl\<close> branch of a sum;
  \<^item> \<^verbatim>\<open>Product\<close> objects are mutable and shared between the caller and the DAO's
    dictionary, so they live in an explicit heap and the dictionary holds addresses;
  \<^item> \<^verbatim>\<open>datetime.now()\<close> and \<^verbatim>\<open>uuid.uuid4()\<close> read the outside world: the state
    carries the sequence of values they will return and a counter of the reads made;
  \<^item> \<^verbatim>\<open>datetime.fromisoformat\<close> is computed on the naive forms that every version of
    the library accepts; its answer on any other string is a parameter \<open>lib\<close> of the
    conversions that call it;
  \<^item> the JSON snapshot written by \<^verbatim>\<open>_save_data\<close> is never read back by a running
    service and is not part of the state.
\<close>

subsection \<open>Python values\<close>

datatype error = KeyError string | ValueError string

datatype pyfloat = Finite rat | PosInf | NegInf | NaN

text \<open>\<^verbatim>\<open>x <= 0\<close>, \<^verbatim>\<open>x > 0\<close> on a float: every comparison with NaN is false.\<close>

fun float_le_zero :: "pyfloat \<Rightarrow> bool" where
  "float_le_zero (Finite r) = (r \<le> 0)"
| "float_le_zero PosInf = False"
| "float_le_zero NegInf = True"
| "float_le_zero NaN = False"

fun float_gt_zero :: "pyfloat \<Rightarrow> bool" where
  "float_gt_zero (Finite r) = (0 < r)"
| "float_gt_zero PosInf = True"
| "float_gt_zero NegInf = False"
| "float_gt_zero NaN = False"

text \<open>\<^verbatim>\<open>str.upper()\<close> on ASCII letters; no other character is mapped to an ASCII letter.\<close>

definition upper_char :: "char \<Rightarrow> char" where
  "upper_char c =
     (if (97::nat) \<le> of_char c \<and> of_char c \<le> (122::nat)
      then char_of (of_char c - (32::nat)) else c)"

definition upper :: "string \<Rightarrow> string" where
  "upper s = map upper_char s"

text \<open>\<^verbatim>\<open>str(n)\<close> for an integer, as the f-strings of the service use it.\<close>

definition digit_char :: "nat \<Rightarrow> char" where
  "digit_char n = ''0123456789'' ! (n mod 10)"

function str_nat :: "nat \<Rightarrow> string" where
  "str_nat n = (if n < 10 then [digit_char n] else str_nat (n div 10) @ [digit_char (n mod 10)])"
  by pat_completeness auto
termination
  by (relation "measure id") auto

declare str_nat.simps [simp del]

definition str_int :: "int \<Rightarrow> string" where
  "str_int i = (if i < 0 then CHR ''-'' # str_nat (nat (- i)) else str_nat (nat i))"

text \<open>\<^verbatim>\<open>'%0wd' % n\<close>: decimal, padded with zeros on the left to width \<open>w\<close>.\<close>

definition zpad :: "nat \<Rightarrow> nat \<Rightarrow> string" where
  "zpad w n = replicate (w - length (str_nat n)) (CHR ''0'') @ str_nat n"

text \<open>\<^verbatim>\<open>', '.join(xs)\<close>\<close>

fun join_comma :: "string list \<Rightarrow> string" where
  "join_comma [] = []"
| "join_comma [x] = x"
| "join_comma (x # y # ys) = x @ '', '' @ join_comma (y # ys)"

subsection \<open>Timestamps\<close>

text \<open>
  A \<^verbatim>\<open>datetime\<close>. \<open>utcoffset\<close> is \<open>None\<close> for a naive timestamp (the repository creates
  timestamps with \<^verbatim>\<open>datetime.now()\<close> only, which carries no UTC offset) and the offset
  from UTC in microseconds for an aware one, as \<^verbatim>\<open>datetime.fromisoformat\<close> returns for a
  string that ends in an offset.
\<close>

record datetime =
  year :: nat
  month :: nat
  day :: nat
  hour :: nat
  minute :: nat
  second :: nat
  microsecond :: nat
  utcoffset :: "int option"

text \<open>
  The offset as \<^verbatim>\<open>isoformat\<close> prints it: nothing for a naive timestamp, else the sign,
  \<^verbatim>\<open>HH:MM\<close>, then \<^verbatim>\<open>:SS\<close> when the offset has seconds or microseconds, then
  \<^verbatim>\<open>.ffffff\<close> when it has microseconds.
\<close>

definition format_offset :: "int option \<Rightarrow> string" where
  "format_offset off =
     (case off of
        None \<Rightarrow> []
      | Some o_us \<Rightarrow>
          (let a = nat (abs o_us);
               below_minute = a mod 60000000
           in (if o_us < 0 then ''-'' else ''+'') @
              zpad 2 (a div 3600000000) @ '':'' @ zpad 2 (a mod 3600000000 div 60000000) @
              (if below_minute = 0 then []
               else '':'' @ zpad 2 (below_minute div 1000000) @
                    (if below_minute mod 1000000 = 0 then []
                     else ''.'' @ zpad 6 (below_minute mod 1000000)))))"

text \<open>
  \<^verbatim>\<open>datetime.isoformat()\<close>: \<^verbatim>\<open>YYYY-MM-DDTHH:MM:SS\<close>, followed by \<^verbatim>\<open>.ffffff\<close>
  when the microsecond is not 0, followed by the offset.
\<close>

definition isoformat :: "datetime \<Rightarrow> string" where
  "isoformat d =
     zpad 4 (year d) @ ''-'' @ zpad 2 (month d) @ ''-'' @ zpad 2 (day d) @ ''T'' @
     zpad 2 (hour d) @ '':'' @ zpad 2 (minute d) @ '':'' @ zpad 2 (second d) @
     (if microsecond d = 0 then [] else ''.'' @ zpad 6 (microsecond d)) @
     format_offset (utcoffset d)"

definition is_digit :: "char \<Rightarrow> bool" where
  "is_digit c = ((48::nat) \<le> of_char c \<and> of_char c \<le> (57::nat))"

definition all_digits :: "string \<Rightarrow> bool" where
  "all_digits s = list_all is_digit s"

definition digits_val :: "string \<Rightarrow> nat" where
  "digits_val s = foldl (\<lambda>n c. 10 * n + (of_char c - 48)) 0 s"

text \<open>The slice \<^verbatim>\<open>s[i:i+n]\<close>.\<close>

definition slice :: "string \<Rightarrow> nat \<Rightarrow> nat \<Rightarrow> string" where
  "slice s i n = take n (drop i s)"

definition is_leap :: "nat \<Rightarrow> bool" where
  "is_leap y = (y mod 4 = 0 \<and> (0 < y mod 100 \<or> y mod 400 = 0))"

definition days_in_month :: "nat \<Rightarrow> nat \<Rightarrow> nat" where
  "days_in_month y m =
     (if m = 2 then (if is_leap y then 29 else 28)
      else if m = 4 \<or> m = 6 \<or> m = 9 \<or> m = 11 then 30 else 31)"

text \<open>The date part \<^verbatim>\<open>YYYY-MM-DD\<close> of a string of exactly ten characters.\<close>

definition parse_date :: "string \<Rightarrow> (nat \<times> nat \<times> nat) option" where
  "parse_date s =
     (if length s = 10 \<and> all_digits (slice s 0 4) \<and> slice s 4 1 = ''-'' \<and>
         all_digits (slice s 5 2) \<and> slice s 7 1 = ''-'' \<and> all_digits (slice s 8 2)
      then Some (digits_val (slice s 0 4), digits_val (slice s 5 2), digits_val (slice s 8 2))
      else None)"

text \<open>The time part \<^verbatim>\<open>HH[:MM[:SS[.fff[fff]]]]\<close>.\<close>

definition parse_time :: "string \<Rightarrow> (nat \<times> nat \<times> nat \<times> nat) option" where
  "parse_time t =
     (let n = length t;
          hh = all_digits (slice t 0 2);
          mm = (slice t 2 1 = '':'' \<and> all_digits (slice t 3 2));
          ss = (slice t 5 1 = '':'' \<and> all_digits (slice t 6 2));
          h = digits_val (slice t 0 2);
          m = digits_val (slice t 3 2);
          s = digits_val (slice t 6 2)
      in if n = 2 \<and> hh then Some (h, 0, 0, 0)
         else if n = 5 \<and> hh \<and> mm then Some (h, m, 0, 0)
         else if n = 8 \<and> hh \<and> mm \<and> ss then Some (h, m, s, 0)
         else if n = 12 \<and> hh \<and> mm \<and> ss \<and> slice t 8 1 = ''.'' \<and> all_digits (slice t 9 3)
           then Some (h, m, s, 1000 * digits_val (slice t 9 3))
         else if n = 15 \<and> hh \<and> mm \<and> ss \<and> slice t 8 1 = ''.'' \<and> all_digits (slice t 9 6)
           then Some (h, m, s, digits_val (slice t 9 6))
         else None)"

text \<open>
  The naive forms \<^verbatim>\<open>YYYY-MM-DD[*HH[:MM[:SS[.fff[fff]]]]]\<close>, where \<^verbatim>\<open>*\<close> is any one
  character, with fields in the ranges of the \<^verbatim>\<open>datetime\<close> constructor: every version of
  \<^verbatim>\<open>datetime.fromisoformat\<close> accepts them, with this result. \<open>None\<close> says only that the
  string is not one of them.
\<close>

definition naive_isoformat :: "string \<Rightarrow> datetime option" where
  "naive_isoformat s =
     (case parse_date (take 10 s) of
        None \<Rightarrow> None
      | Some (y, mo, d) \<Rightarrow>
          (case (if length s = 10 then Some (0, 0, 0, 0) else parse_time (drop 11 s)) of
             None \<Rightarrow> None
           | Some (h, mi, sec, us) \<Rightarrow>
               if 1 \<le> y \<and> y \<le> 9999 \<and> 1 \<le> mo \<and> mo \<le> 12 \<and> 1 \<le> d \<and> d \<le> days_in_month y mo \<and>
                  h < 24 \<and> mi < 60 \<and> sec < 60
               then Some \<lparr>year = y, month = mo, day = d, hour = h, minute = mi,
                          second = sec, microsecond = us, utcoffset = None\<rparr>
               else None))"

text \<open>
  \<^verbatim>\<open>datetime.fromisoformat\<close>. What the library does with a string that is not one of the
  naive forms above depends on the Python that runs the code: a string that ends in a UTC
  offset gives an aware timestamp, Python 3.11 and later accept further ISO 8601 forms,
  and the rest raise \<^verbatim>\<open>ValueError\<close>. The model takes that part of the library as the
  parameter \<open>lib\<close> and every theorem holds for every \<open>lib\<close>.
\<close>

definition fromisoformat :: "(string \<Rightarrow> error + datetime) \<Rightarrow> string \<Rightarrow> error + datetime" where
  "fromisoformat lib s = (case naive_isoformat s of Some d \<Rightarrow> Inr d | None \<Rightarrow> lib s)"

text \<open>The error of the library for a string it does not accept.\<close>

definition invalid_isoformat :: error where
  "invalid_isoformat = ValueError ''Invalid isoformat string''"

subsection \<open>Entity layer (models.py)\<close>

datatype ProductCategory = ELECTRONICS | CLOTHING | FOOD | BOOKS | TOYS | HOME | OFFICE | OTHER

text \<open>The members in definition order, as iterating over the enumeration yields them.\<close>

definition all_categories :: "ProductCategory list" where
  "all_categories = [ELECTRONICS, CLOTHING, FOOD, BOOKS, TOYS, HOME, OFFICE, OTHER]"

fun category_name :: "ProductCategory \<Rightarrow> string" where
  "category_name ELECTRONICS = ''ELECTRONICS''"
| "category_name CLOTHING = ''CLOTHING''"
| "category_name FOOD = ''FOOD''"
| "category_name BOOKS = ''BOOKS''"
| "category_name TOYS = ''TOYS''"
| "category_name HOME = ''HOME''"
| "category_name OFFICE = ''OFFICE''"
| "category_name OTHER = ''OTHER''"

text \<open>\<^verbatim>\<open>ProductCategory[s]\<close>: the member named \<open>s\<close>, or \<^verbatim>\<open>KeyError\<close>.\<close>

definition ProductCategory_getitem :: "string \<Rightarrow> error + ProductCategory" where
  "ProductCategory_getitem s =
     (case find (\<lambda>c. category_name c = s) all_categories of
        None \<Rightarrow> Inl (KeyError s)
      | Some c \<Rightarrow> Inr c)"

datatype InventoryStatus = IN_STOCK | LOW_STOCK | OUT_OF_STOCK | DISCONTINUED

fun status_name :: "InventoryStatus \<Rightarrow> string" where
  "status_name IN_STOCK = ''IN_STOCK''"
| "status_name LOW_STOCK = ''LOW_STOCK''"
| "status_name OUT_OF_STOCK = ''OUT_OF_STOCK''"
| "status_name DISCONTINUED = ''DISCONTINUED''"

definition InventoryStatus_getitem :: "string \<Rightarrow> error + InventoryStatus" where
  "InventoryStatus_getitem s =
     (case find (\<lambda>c. status_name c = s) [IN_STOCK, LOW_STOCK, OUT_OF_STOCK, DISCONTINUED] of
        None \<Rightarrow> Inl (KeyError s)
      | Some c \<Rightarrow> Inr c)"

record product =
  name :: string
  description :: string
  category :: ProductCategory
  price :: pyfloat
  stock_quantity :: int
  sku :: string
  created_at :: datetime
  updated_at :: datetime

text \<open>The property \<^verbatim>\<open>Product.status\<close>.\<close>

definition status :: "product \<Rightarrow> InventoryStatus" where
  "status p =
     (if stock_quantity p \<le> 0 then OUT_OF_STOCK
      else if stock_quantity p < 5 then LOW_STOCK
      else IN_STOCK)"

record transaction =
  product_sku :: string
  quantity :: int
  transaction_type :: string
  transaction_id :: string
  timestamp :: datetime
  notes' :: string

text \<open>
  The mappings of the external record layout. A key is absent (\<open>None\<close>) or carries a value
  of its field's type; keys outside the layout are not represented (\<^verbatim>\<open>from_dict\<close> never
  reads them).
\<close>

record product_dict =
  d_sku :: "string option"
  d_name :: "string option"
  d_description :: "string option"
  d_category :: "string option"
  d_price :: "pyfloat option"
  d_stock_quantity :: "int option"
  d_created_at :: "string option"
  d_updated_at :: "string option"

record transaction_dict =
  d_transaction_id :: "string option"
  d_product_sku :: "string option"
  d_quantity :: "int option"
  d_transaction_type :: "string option"
  d_timestamp :: "string option"
  d_notes :: "string option"

text \<open>\<^verbatim>\<open>data[k]\<close>: the value, or \<^verbatim>\<open>KeyError(k)\<close>.\<close>

definition getitem :: "'a option \<Rightarrow> string \<Rightarrow> error + 'a" where
  "getitem v k = (case v of None \<Rightarrow> Inl (KeyError k) | Some x \<Rightarrow> Inr x)"

text \<open>Sequencing: the first exception raised ends the evaluation.\<close>

definition bind_err :: "error + 'a \<Rightarrow> ('a \<Rightarrow> error + 'b) \<Rightarrow> error + 'b" where
  "bind_err r f = (case r of Inl e \<Rightarrow> Inl e | Inr x \<Rightarrow> f x)"

definition product_to_dict :: "product \<Rightarrow> product_dict" where
  "product_to_dict p =
     \<lparr>d_sku = Some (sku p),
      d_name = Some (name p),
      d_description = Some (description p),
      d_category = Some (category_name (category p)),
      d_price = Some (price p),
      d_stock_quantity = Some (stock_quantity p),
      d_created_at = Some (isoformat (created_at p)),
      d_updated_at = Some (isoformat (updated_at p))\<rparr>"

text \<open>The keyword arguments are evaluated in the order they are written.\<close>

definition product_from_dict ::
  "(string \<Rightarrow> error + datetime) \<Rightarrow> product_dict \<Rightarrow> error + product" where
  "product_from_dict lib data =
     bind_err (getitem (d_name data) ''name'') (\<lambda>n.
     bind_err (getitem (d_description data) ''description'') (\<lambda>d.
     bind_err (bind_err (getitem (d_category data) ''category'') ProductCategory_getitem) (\<lambda>c.
     bind_err (getitem (d_price data) ''price'') (\<lambda>pr.
     bind_err (getitem (d_stock_quantity data) ''stock_quantity'') (\<lambda>q.
     bind_err (getitem (d_sku data) ''sku'') (\<lambda>s.
     bind_err (bind_err (getitem (d_created_at data) ''created_at'') (fromisoformat lib)) (\<lambda>ca.
     bind_err (bind_err (getitem (d_updated_at data) ''updated_at'') (fromisoformat lib)) (\<lambda>ua.
     Inr \<lparr>name = n, description = d, category = c, price = pr, stock_quantity = q,
          sku = s, created_at = ca, updated_at = ua\<rparr>))))))))"

definition transaction_to_dict :: "transaction \<Rightarrow> transaction_dict" where
  "transaction_to_dict t =
     \<lparr>d_transaction_id = Some (transaction_id t),
      d_product_sku = Some (product_sku t),
      d_quantity = Some (quantity t),
      d_transaction_type = Some (transaction_type t),
      d_timestamp = Some (isoformat (timestamp t)),
      d_notes = Some (notes' t)\<rparr>"

text \<open>\<^verbatim>\<open>data.get('notes', "")\<close> is the one lookup with a default.\<close>

definition transaction_from_dict ::
  "(string \<Rightarrow> error + datetime) \<Rightarrow> transaction_dict \<Rightarrow> error + transaction" where
  "transaction_from_dict lib data =
     bind_err (getitem (d_product_sku data) ''product_sku'') (\<lambda>ps.
     bind_err (getitem (d_quantity data) ''quantity'') (\<lambda>q.
     bind_err (getitem (d_transaction_type data) ''transaction_type'') (\<lambda>tt.
     bind_err (getitem (d_transaction_id data) ''transaction_id'') (\<lambda>ti.
     bind_err (bind_err (getitem (d_timestamp data) ''timestamp'') (fromisoformat lib)) (\<lambda>ts.
     Inr \<lparr>product_sku = ps, quantity = q, transaction_type = tt, transaction_id = ti,
          timestamp = ts,
          notes' = (case d_notes data of None \<Rightarrow> [] | Some n \<Rightarrow> n)\<rparr>)))))"

subsection \<open>Dictionaries\<close>

text \<open>
  A Python \<^verbatim>\<open>dict\<close> keeps its keys in insertion order; assigning to a key that is present
  keeps the key's position. An association list with the same discipline models it.
\<close>

definition dict_get :: "'k \<Rightarrow> ('k \<times> 'v) list \<Rightarrow> 'v option" where
  "dict_get k d = map_of d k"

definition dict_contains :: "'k \<Rightarrow> ('k \<times> 'v) list \<Rightarrow> bool" where
  "dict_contains k d = (map_of d k \<noteq> None)"

definition dict_setitem :: "'k \<Rightarrow> 'v \<Rightarrow> ('k \<times> 'v) list \<Rightarrow> ('k \<times> 'v) list" where
  "dict_setitem k v d = AList.update k v d"

definition dict_delitem :: "'k \<Rightarrow> ('k \<times> 'v) list \<Rightarrow> ('k \<times> 'v) list" where
  "dict_delitem k d = AList.delete k d"

definition dict_values :: "('k \<times> 'v) list \<Rightarrow> 'v list" where
  "dict_values d = map snd d"

subsection \<open>State\<close>

text \<open>
  \<open>heap\<close> holds the \<^verbatim>\<open>Product\<close> objects, an address being an index into it;
  \<open>products\<close> is \<^verbatim>\<open>ProductDAO.products\<close> (sku to object reference) and \<open>transactions\<close> is
  \<^verbatim>\<open>TransactionDAO.transactions\<close> (transaction objects are never mutated after their
  creation, so they are stored by value). \<open>clock k\<close> is what the \<open>k\<close>-th call of
  \<^verbatim>\<open>datetime.now()\<close> returns and \<open>uuids k\<close> is \<^verbatim>\<open>str(uuid.uuid4())\<close> of the \<open>k\<close>-th call.
\<close>

record state =
  heap :: "product list"
  products :: "(string \<times> nat) list"
  transactions :: "(string \<times> transaction) list"
  clock :: "nat \<Rightarrow> datetime"
  ticks :: nat
  uuids :: "nat \<Rightarrow> string"
  drawn :: nat

definition datetime_now :: "state \<Rightarrow> datetime \<times> state" where
  "datetime_now st = (clock st (ticks st), st\<lparr>ticks := Suc (ticks st)\<rparr>)"

definition uuid4 :: "state \<Rightarrow> string \<times> state" where
  "uuid4 st = (uuids st (drawn st), st\<lparr>drawn := Suc (drawn st)\<rparr>)"

text \<open>The object behind a reference, and an assignment to attributes of that object.\<close>

definition deref :: "state \<Rightarrow> nat \<Rightarrow> product" where
  "deref st a = heap st ! a"

definition modify :: "nat \<Rightarrow> (product \<Rightarrow> product) \<Rightarrow> state \<Rightarrow> state" where
  "modify a f st = st\<lparr>heap := (heap st)[a := f (heap st ! a)]\<rparr>"

text \<open>
  References held by the dictionary point into the heap. Python guarantees this of every
  reference; here it is a condition on the states considered.
\<close>

definition refs_valid :: "state \<Rightarrow> bool" where
  "refs_valid st = list_all (\<lambda>a. a < length (heap st)) (dict_values (products st))"

text \<open>
  \<^verbatim>\<open>Product(name=..., ...)\<close>: the default factories run in field order (sku, created_at,
  updated_at); the new object gets a new address.
\<close>

definition Product_new ::
  "string \<Rightarrow> string \<Rightarrow> ProductCategory \<Rightarrow> pyfloat \<Rightarrow> int \<Rightarrow> state \<Rightarrow> nat \<times> state" where
  "Product_new n d c pr q st =
     (let (u, st1) = uuid4 st;
          (t1, st2) = datetime_now st1;
          (t2, st3) = datetime_now st2;
          p = \<lparr>name = n, description = d, category = c, price = pr, stock_quantity = q,
               sku = upper (take 8 u), created_at = t1, updated_at = t2\<rparr>
      in (length (heap st3), st3\<lparr>heap := heap st3 @ [p]\<rparr>))"

text \<open>\<^verbatim>\<open>Transaction(product_sku=..., quantity=..., transaction_type=..., notes=...)\<close>\<close>

definition Transaction_new ::
  "string \<Rightarrow> int \<Rightarrow> string \<Rightarrow> string \<Rightarrow> state \<Rightarrow> transaction \<times> state" where
  "Transaction_new ps q tt n st =
     (let (u, st1) = uuid4 st;
          (t, st2) = datetime_now st1
      in (\<lparr>product_sku = ps, quantity = q, transaction_type = tt, transaction_id = u,
           timestamp = t, notes' = n\<rparr>, st2))"

subsection \<open>Persistence layer (models.py)\<close>

definition ProductDAO_save :: "nat \<Rightarrow> state \<Rightarrow> bool \<times> state" where
  "ProductDAO_save a st =
     (let st1 = (if dict_contains (sku (deref st a)) (products st)
                 then (let (t, st') = datetime_now st
                       in modify a (\<lambda>p. p\<lparr>updated_at := t\<rparr>) st')
                 else st)
      in (True, st1\<lparr>products := dict_setitem (sku (deref st1 a)) a (products st1)\<rparr>))"

definition ProductDAO_delete :: "string \<Rightarrow> state \<Rightarrow> bool \<times> state" where
  "ProductDAO_delete s st =
     (if dict_contains s (products st)
      then (True, st\<lparr>products := dict_delitem s (products st)\<rparr>)
      else (False, st))"

definition ProductDAO_get :: "string \<Rightarrow> state \<Rightarrow> nat option" where
  "ProductDAO_get s st = dict_get s (products st)"

definition ProductDAO_get_all :: "state \<Rightarrow> nat list" where
  "ProductDAO_get_all st = dict_values (products st)"

definition ProductDAO_filter_by_category :: "ProductCategory \<Rightarrow> state \<Rightarrow> nat list" where
  "ProductDAO_filter_by_category c st =
     filter (\<lambda>a. category (deref st a) = c) (dict_values (products st))"

definition ProductDAO_filter_by_status :: "InventoryStatus \<Rightarrow> state \<Rightarrow> nat list" where
  "ProductDAO_filter_by_status s st =
     filter (\<lambda>a. status (deref st a) = s) (dict_values (products st))"

definition TransactionDAO_save :: "transaction \<Rightarrow> state \<Rightarrow> bool \<times> state" where
  "TransactionDAO_save t st =
     (True, st\<lparr>transactions := dict_setitem (transaction_id t) t (transactions st)\<rparr>)"

definition TransactionDAO_get_all :: "state \<Rightarrow> transaction list" where
  "TransactionDAO_get_all st = dict_values (transactions st)"

definition TransactionDAO_get_by_type :: "string \<Rightarrow> state \<Rightarrow> transaction list" where
  "TransactionDAO_get_by_type tt st =
     filter (\<lambda>t. transaction_type t = tt) (dict_values (transactions st))"

subsection \<open>Inventory service (services.py)\<close>

text \<open>The accented letters of the service's messages, by code point.\<close>

definition a_acute :: char where "a_acute = CHR 0xE1"
definition i_acute :: char where "i_acute = CHR 0xED"
definition o_acute :: char where "o_acute = CHR 0xF3"

definition msg_invalid_category :: string where
  "msg_invalid_category = ''Categor'' @ [i_acute] @ ''a inv'' @ [a_acute] @ ''lida: ''"

definition msg_invalid_price :: string where
  "msg_invalid_price = ''El precio debe ser mayor que cero''"

definition msg_negative_stock :: string where
  "msg_negative_stock = ''La cantidad en stock no puede ser negativa''"

definition msg_quantity_positive :: string where
  "msg_quantity_positive = ''La cantidad debe ser mayor que cero''"

definition msg_quantity_negative :: string where
  "msg_quantity_negative = ''La cantidad no puede ser negativa''"

definition msg_not_found :: "string \<Rightarrow> string" where
  "msg_not_found s = ''Producto con SKU '' @ s @ '' no encontrado''"

definition msg_insufficient :: "int \<Rightarrow> string" where
  "msg_insufficient q = ''Stock insuficiente. Disponible: '' @ str_int q"

definition msg_updated :: "int \<Rightarrow> string" where
  "msg_updated q = ''Stock actualizado. Nuevo stock: '' @ str_int q"

definition msg_adjusted :: "int \<Rightarrow> string" where
  "msg_adjusted q = ''Stock ajustado a '' @ str_int q"

definition record_transaction ::
  "string \<Rightarrow> int \<Rightarrow> string \<Rightarrow> string \<Rightarrow> state \<Rightarrow> transaction \<times> state" where
  "record_transaction ps q tt n st =
     (let (t, st1) = Transaction_new ps q tt n st;
          (ok, st2) = TransactionDAO_save t st1
      in (t, st2))"

definition add_product ::
  "string \<Rightarrow> string \<Rightarrow> string \<Rightarrow> pyfloat \<Rightarrow> int \<Rightarrow> state \<Rightarrow> (error + nat) \<times> state" where
  "add_product n d cat pr q st =
     (case ProductCategory_getitem (upper cat) of
        Inl e \<Rightarrow>
          (Inl (ValueError (msg_invalid_category @ cat @ ''. Opciones v'' @ [a_acute] @
                            ''lidas: '' @ join_comma (map category_name all_categories))), st)
      | Inr category_enum \<Rightarrow>
          if float_le_zero pr then (Inl (ValueError msg_invalid_price), st)
          else if q < 0 then (Inl (ValueError msg_negative_stock), st)
          else
            (let (a, st1) = Product_new n d category_enum pr q st;
                 (ok, st2) = ProductDAO_save a st1;
                 st3 = (if 0 < q
                        then snd (record_transaction (sku (deref st2 a)) q ''purchase''
                                    (''Inventario inicial para '' @ name (deref st2 a)) st2)
                        else st2)
             in (Inr a, st3)))"

text \<open>
  The keyword arguments of \<^verbatim>\<open>update_product\<close> that the function reads; any other keyword
  is ignored by it.
\<close>

record update_kwargs =
  kw_name :: "string option"
  kw_description :: "string option"
  kw_category :: "string option"
  kw_price :: "pyfloat option"

text \<open>
  \<^verbatim>\<open>product\<close> is the object stored in the DAO's dictionary, so each assignment to one of
  its attributes is an assignment to the stored object, made at once. A \<^verbatim>\<open>ValueError\<close>
  leaves the function at the point where it is raised, with the state reached there.
\<close>

definition update_product ::
  "string \<Rightarrow> update_kwargs \<Rightarrow> state \<Rightarrow> (error + nat option) \<times> state" where
  "update_product s kw st =
     (case ProductDAO_get s st of
        None \<Rightarrow> (Inr None, st)
      | Some a \<Rightarrow>
          (let st1 = (case kw_name kw of
                        None \<Rightarrow> st
                      | Some n \<Rightarrow> modify a (\<lambda>p. p\<lparr>name := n\<rparr>) st);
               st2 = (case kw_description kw of
                        None \<Rightarrow> st1
                      | Some d \<Rightarrow> modify a (\<lambda>p. p\<lparr>description := d\<rparr>) st1);
               r3 = (case kw_category kw of
                       None \<Rightarrow> Inr st2
                     | Some c \<Rightarrow>
                         (case ProductCategory_getitem (upper c) of
                            Inl e \<Rightarrow> Inl (ValueError (msg_invalid_category @ c))
                          | Inr ce \<Rightarrow> Inr (modify a (\<lambda>p. p\<lparr>category := ce\<rparr>) st2)))
           in case r3 of
                Inl e \<Rightarrow> (Inl e, st2)
              | Inr st3 \<Rightarrow>
                  (let r4 = (case kw_price kw of
                               None \<Rightarrow> Inr st3
                             | Some pr \<Rightarrow>
                                 if float_le_zero pr then Inl (ValueError msg_invalid_price)
                                 else Inr (modify a (\<lambda>p. p\<lparr>price := pr\<rparr>) st3))
                   in case r4 of
                        Inl e \<Rightarrow> (Inl e, st3)
                      | Inr st4 \<Rightarrow>
                          (let (t, st5) = datetime_now st4;
                               st6 = modify a (\<lambda>p. p\<lparr>updated_at := t\<rparr>) st5;
                               (ok, st7) = ProductDAO_save a st6
                           in (Inr (Some a), st7)))))"

definition get_product :: "string \<Rightarrow> state \<Rightarrow> nat option" where
  "get_product s st = ProductDAO_get s st"

definition delete_product :: "string \<Rightarrow> state \<Rightarrow> bool \<times> state" where
  "delete_product s st =
     (case ProductDAO_get s st of
        None \<Rightarrow> (False, st)
      | Some a \<Rightarrow>
          (let st1 = (if 0 < stock_quantity (deref st a)
                      then snd (record_transaction s (- stock_quantity (deref st a)) ''adjustment''
                                  (''Eliminaci'' @ [o_acute] @ ''n del producto '' @
                                   name (deref st a)) st)
                      else st)
           in ProductDAO_delete s st1))"

definition get_all_products :: "state \<Rightarrow> nat list" where
  "get_all_products st = ProductDAO_get_all st"

definition get_products_by_category :: "string \<Rightarrow> state \<Rightarrow> error + nat list" where
  "get_products_by_category cat st =
     (case ProductCategory_getitem (upper cat) of
        Inl e \<Rightarrow> Inl (ValueError (msg_invalid_category @ cat))
      | Inr category_enum \<Rightarrow> Inr (ProductDAO_filter_by_category category_enum st))"

definition get_products_by_status :: "string \<Rightarrow> state \<Rightarrow> error + nat list" where
  "get_products_by_status s st =
     (case InventoryStatus_getitem (upper s) of
        Inl e \<Rightarrow> Inl (ValueError (''Estado inv'' @ [a_acute] @ ''lido: '' @ s))
      | Inr status_enum \<Rightarrow> Inr (ProductDAO_filter_by_status status_enum st))"

definition add_stock :: "string \<Rightarrow> int \<Rightarrow> string \<Rightarrow> state \<Rightarrow> (bool \<times> string) \<times> state" where
  "add_stock s q n st =
     (if q \<le> 0 then ((False, msg_quantity_positive), st)
      else case ProductDAO_get s st of
        None \<Rightarrow> ((False, msg_not_found s), st)
      | Some a \<Rightarrow>
          (let st1 = modify a (\<lambda>p. p\<lparr>stock_quantity := stock_quantity p + q\<rparr>) st;
               (t, st2) = datetime_now st1;
               st3 = modify a (\<lambda>p. p\<lparr>updated_at := t\<rparr>) st2;
               (ok, st4) = ProductDAO_save a st3;
               (tr, st5) = record_transaction s q ''purchase'' n st4
           in ((True, msg_updated (stock_quantity (deref st5 a))), st5)))"

definition remove_stock :: "string \<Rightarrow> int \<Rightarrow> string \<Rightarrow> state \<Rightarrow> (bool \<times> string) \<times> state" where
  "remove_stock s q n st =
     (if q \<le> 0 then ((False, msg_quantity_positive), st)
      else case ProductDAO_get s st of
        None \<Rightarrow> ((False, msg_not_found s), st)
      | Some a \<Rightarrow>
          if stock_quantity (deref st a) < q
          then ((False, msg_insufficient (stock_quantity (deref st a))), st)
          else
            (let st1 = modify a (\<lambda>p. p\<lparr>stock_quantity := stock_quantity p - q\<rparr>) st;
                 (t, st2) = datetime_now st1;
                 st3 = modify a (\<lambda>p. p\<lparr>updated_at := t\<rparr>) st2;
                 (ok, st4) = ProductDAO_save a st3;
                 (tr, st5) = record_transaction s (- q) ''sale'' n st4
             in ((True, msg_updated (stock_quantity (deref st5 a))), st5)))"

definition adjust_stock :: "string \<Rightarrow> int \<Rightarrow> string \<Rightarrow> state \<Rightarrow> (bool \<times> string) \<times> state" where
  "adjust_stock s new_quantity n st =
     (if new_quantity < 0 then ((False, msg_quantity_negative), st)
      else case ProductDAO_get s st of
        None \<Rightarrow> ((False, msg_not_found s), st)
      | Some a \<Rightarrow>
          (let difference = new_quantity - stock_quantity (deref st a);
               st1 = modify a (\<lambda>p. p\<lparr>stock_quantity := new_quantity\<rparr>) st;
               (t, st2) = datetime_now st1;
               st3 = modify a (\<lambda>p. p\<lparr>updated_at := t\<rparr>) st2;
               (ok, st4) = ProductDAO_save a st3;
               (tr, st5) = record_transaction s difference ''adjustment'' n st4
           in ((True, msg_adjusted new_quantity), st5)))"

definition get_transactions_by_type :: "string \<Rightarrow> state \<Rightarrow> error + transaction list" where
  "get_transactions_by_type tt st =
     (if tt \<notin> set [''purchase'', ''sale'', ''adjustment'']
      then Inl (ValueError (''Tipo de transacci'' @ [o_acute] @ ''n inv'' @ [a_acute] @
                            ''lido. Opciones v'' @ [a_acute] @ ''lidas: '' @
                            join_comma [''purchase'', ''sale'', ''adjustment'']))
      else Inr (TransactionDAO_get_by_type tt st))"

definition get_low_stock_products :: "int \<Rightarrow> state \<Rightarrow> nat list" where
  "get_low_stock_products threshold st =
     filter (\<lambda>a. stock_quantity (deref st a) \<le> threshold) (ProductDAO_get_all st)"

definition get_out_of_stock_products :: "state \<Rightarrow> nat list" where
  "get_out_of_stock_products st =
     filter (\<lambda>a. stock_quantity (deref st a) \<le> 0) (ProductDAO_get_all st)"

subsection \<open>Example values\<close>

definition example_time :: datetime where
  "example_time =
     \<lparr>year = 2024, month = 1, day = 15, hour = 10, minute = 30, second = 0, microsecond = 0,
      utcoffset = None\<rparr>"

definition example_product :: product where
  "example_product =
     \<lparr>name = ''Widget'', description = ''A widget'', category = FOOD,
      price = Finite 10, stock_quantity = 3, sku = ''AB12CD34'',
      created_at = example_time, updated_at = example_time\<rparr>"

text \<open>A store holding the one product, with no transaction recorded yet.\<close>

definition example_state :: state where
  "example_state =
     \<lparr>heap = [example_product], products = [(''AB12CD34'', 0)], transactions = [],
      clock = (\<lambda>k. example_time\<lparr>second := Suc k\<rparr>), ticks = 0,
      uuids = (\<lambda>k. if k = 0 then ''0f8fad5b-d9cb-469f-a165-70867728950e''
                     else ''7c9e6679-7425-40de-944b-e07fc1f90ae7''),
      drawn = 0\<rparr>"

subsection \<open>Predicates of the specification\<close>

text \<open>
  The product-store invariant: every stored product has a positive price and a stock
  quantity that is not negative.
\<close>

definition product_invariant :: "product \<Rightarrow> bool" where
  "product_invariant p = (float_gt_zero (price p) \<and> 0 \<le> stock_quantity p)"

definition store_invariant :: "state \<Rightarrow> bool" where
  "store_invariant st = list_all (\<lambda>a. product_invariant (deref st a)) (ProductDAO_get_all st)"

definition consistent :: "state \<Rightarrow> bool" where
  "consistent st = (store_invariant st \<and> refs_valid st)"

text \<open>
  A naive timestamp with its fields in the ranges that the \<^verbatim>\<open>datetime\<close> constructor
  accepts: what \<^verbatim>\<open>datetime.now()\<close> returns.
\<close>

definition valid_datetime :: "datetime \<Rightarrow> bool" where
  "valid_datetime d =
     (1 \<le> year d \<and> year d \<le> 9999 \<and> 1 \<le> month d \<and> month d \<le> 12 \<and>
      1 \<le> day d \<and> day d \<le> days_in_month (year d) (month d) \<and>
      hour d < 24 \<and> minute d < 60 \<and> second d < 60 \<and> microsecond d < 1000000 \<and>
      utcoffset d = None)"

text \<open>
  A timestamp string is valid when \<open>fromisoformat\<close> accepts it, and canonical when
  \<open>isoformat\<close> gives the same string back.
\<close>

definition valid_timestamp :: "(string \<Rightarrow> error + datetime) \<Rightarrow> string \<Rightarrow> bool" where
  "valid_timestamp lib s = (case fromisoformat lib s of Inl e \<Rightarrow> False | Inr d \<Rightarrow> True)"

definition canonical_timestamp :: "(string \<Rightarrow> error + datetime) \<Rightarrow> string \<Rightarrow> bool" where
  "canonical_timestamp lib s =
     (case fromisoformat lib s of Inl e \<Rightarrow> False | Inr d \<Rightarrow> isoformat d = s)"

definition valid_category_name :: "string \<Rightarrow> bool" where
  "valid_category_name s = (case ProductCategory_getitem s of Inl e \<Rightarrow> False | Inr c \<Rightarrow> True)"

definition valid_transaction_types :: "string list" where
  "valid_transaction_types = [''purchase'', ''sale'', ''adjustment'']"

text \<open>
  A well-formed mapping has every field of the external record layout, an enumeration
  name where the layout asks for one, and timestamps that satisfy \<open>ts_ok\<close>.
\<close>

definition well_formed_product_dict :: "(string \<Rightarrow> bool) \<Rightarrow> product_dict \<Rightarrow> bool" where
  "well_formed_product_dict ts_ok m =
     (d_sku m \<noteq> None \<and> d_name m \<noteq> None \<and> d_description m \<noteq> None \<and>
      d_price m \<noteq> None \<and> d_stock_quantity m \<noteq> None \<and>
      (case d_category m of None \<Rightarrow> False | Some c \<Rightarrow> valid_category_name c) \<and>
      (case d_created_at m of None \<Rightarrow> False | Some s \<Rightarrow> ts_ok s) \<and>
      (case d_updated_at m of None \<Rightarrow> False | Some s \<Rightarrow> ts_ok s))"

definition well_formed_transaction_dict :: "(string \<Rightarrow> bool) \<Rightarrow> transaction_dict \<Rightarrow> bool" where
  "well_formed_transaction_dict ts_ok m =
     (d_transaction_id m \<noteq> None \<and> d_product_sku m \<noteq> None \<and> d_quantity m \<noteq> None \<and>
      d_notes m \<noteq> None \<and>
      (case d_transaction_type m of None \<Rightarrow> False | Some t \<Rightarrow> t \<in> set valid_transaction_types) \<and>
      (case d_timestamp m of None \<Rightarrow> False | Some s \<Rightarrow> ts_ok s))"

subsection \<open>Example mappings\<close>

definition example_product_dict :: product_dict where
  "example_product_dict =
     \<lparr>d_sku = Some ''AB12CD34'', d_name = Some ''Widget'', d_description = Some ''A widget'',
      d_category = Some ''FOOD'', d_price = Some (Finite 10), d_stock_quantity = Some 3,
      d_created_at = Some ''2024-01-15T10:30:00'', d_updated_at = Some ''2024-01-15T10:30:00''\<rparr>"

text \<open>The same mapping with the creation timestamp given as a calendar date.\<close>

definition date_only_product_dict :: product_dict where
  "date_only_product_dict = example_product_dict\<lparr>d_created_at := Some ''2024-01-15''\<rparr>"

definition example_transaction_dict :: transaction_dict where
  "example_transaction_dict =
     \<lparr>d_transaction_id = Some ''0f8fad5b-d9cb-469f-a165-70867728950e'',
      d_product_sku = Some ''AB12CD34'', d_quantity = Some 3,
      d_transaction_type = Some ''purchase'', d_timestamp = Some ''2024-01-15T10:30:00'',
      d_notes = Some ''Inventario inicial''\<rparr>"

definition example_transaction :: transaction where
  "example_transaction =
     \<lparr>product_sku = ''AB12CD34'', quantity = 3, transaction_type = ''purchase'',
      transaction_id = ''0f8fad5b-d9cb-469f-a165-70867728950e'', timestamp = example_time,
      notes' = ''Inventario inicial''\<rparr>"

text \<open>A rename and a new category passed together with a price that is not positive.\<close>

definition example_bad_update :: update_kwargs where
  "example_bad_update =
     \<lparr>kw_name = Some ''Gadget'', kw_description = None, kw_category = Some ''toys'',
      kw_price = Some (Finite (- 1))\<rparr>"

text \<open>
  Two ways the library can treat the strings that are not naive forms: one accepts none
  of them; the other accepts the one string \<^verbatim>\<open>2024-01-15T10:30:00+02:00\<close>, as every
  version of the library does, and gives the aware timestamp it stands for.
\<close>

definition lib_rejecting :: "string \<Rightarrow> error + datetime" where
  "lib_rejecting s = Inl invalid_isoformat"

definition lib_with_offset :: "string \<Rightarrow> error + datetime" where
  "lib_with_offset s =
     (if s = ''2024-01-15T10:30:00+02:00''
      then Inr (example_time\<lparr>utcoffset := Some 7200000000\<rparr>)
      else Inl invalid_isoformat)"

section \<open>Properties\<close>

subsection \<open>Derived status\<close>

text \<open>
  C6. The status of a product is determined by its stock quantity alone: a quantity of at
  most 0 gives \<open>OUT_OF_STOCK\<close>, a quantity between 1 and 4 gives \<open>LOW_STOCK\<close>, a quantity of
  at least 5 gives \<open>IN_STOCK\<close>; \<open>DISCONTINUED\<close> is never the result, and two products with
  the same stock quantity have the same status.
\<close>

theorem status_by_stock_quantity:
  "(stock_quantity p \<le> 0 \<longrightarrow> status p = OUT_OF_STOCK) \<and>
   (0 < stock_quantity p \<and> stock_quantity p < 5 \<longrightarrow> status p = LOW_STOCK) \<and>
   (5 \<le> stock_quantity p \<longrightarrow> status p = IN_STOCK) \<and>
   status p \<noteq> DISCONTINUED \<and>
   (stock_quantity p = stock_quantity p' \<longrightarrow> status p = status p')"
  by (simp add: status_def)

theorem status_by_stock_quantity_witness:
  "status (example_product\<lparr>stock_quantity := 0\<rparr>) = OUT_OF_STOCK \<and>
   status example_product = LOW_STOCK \<and>
   status (example_product\<lparr>stock_quantity := 5\<rparr>) = IN_STOCK \<and>
   status example_product = status (example_product\<lparr>name := ''Gadget''\<rparr>)"
proof -
  have q: "stock_quantity example_product = 3"
    by (simp add: example_product_def)
  have "status (example_product\<lparr>stock_quantity := 0\<rparr>) = OUT_OF_STOCK"
    using status_by_stock_quantity [of "example_product\<lparr>stock_quantity := 0\<rparr>"] by simp
  moreover have "status example_product = LOW_STOCK"
    using status_by_stock_quantity [of example_product] q by simp
  moreover have "status (example_product\<lparr>stock_quantity := 5\<rparr>) = IN_STOCK"
    using status_by_stock_quantity [of "example_product\<lparr>stock_quantity := 5\<rparr>"] by simp
  moreover have "status example_product = status (example_product\<lparr>name := ''Gadget''\<rparr>)"
    using status_by_stock_quantity [of example_product "example_product\<lparr>name := ''Gadget''\<rparr>"]
    by simp
  ultimately show ?thesis by blast
qed

subsection \<open>Stock operations\<close>

text \<open>
  C3. When the product stored under \<open>s\<close> has stock \<open>k\<close> and the requested quantity \<open>q\<close>
  exceeds \<open>k\<close>, \<open>remove_stock\<close> returns failure and the state it returns is the state it
  was given: the stock is still \<open>k\<close>, the update timestamp is not refreshed and no
  transaction is added. With \<open>k\<close> not negative, as the data model has it, the message is
  the insufficient-stock message.
\<close>

theorem remove_stock_insufficient:
  assumes "ProductDAO_get s st = Some a"
    and "stock_quantity (deref st a) < q"
  shows "fst (fst (remove_stock s q n st)) = False \<and>
         snd (remove_stock s q n st) = st \<and>
         (0 \<le> stock_quantity (deref st a) \<longrightarrow>
            snd (fst (remove_stock s q n st)) = msg_insufficient (stock_quantity (deref st a)))"
  using assms by (simp add: remove_stock_def)

theorem remove_stock_insufficient_witness:
  "remove_stock ''AB12CD34'' 5 [] example_state =
     ((False, ''Stock insuficiente. Disponible: 3''), example_state)"
proof -
  have g: "ProductDAO_get ''AB12CD34'' example_state = Some 0"
    by (simp add: ProductDAO_get_def dict_get_def example_state_def)
  have q: "stock_quantity (deref example_state 0) = 3"
    by (simp add: deref_def example_state_def example_product_def)
  have m: "msg_insufficient 3 = ''Stock insuficiente. Disponible: 3''"
    by (simp add: msg_insufficient_def str_int_def str_nat.simps digit_char_def)
  have "stock_quantity (deref example_state 0) < 5"
    by (simp add: q)
  from remove_stock_insufficient [OF g this, of "[]"] q m
  show ?thesis by (simp add: prod_eq_iff)
qed

subsection \<open>Dictionary facts\<close>

lemma dict_setitem_fresh:
  "\<not> dict_contains k d \<Longrightarrow> dict_setitem k v d = d @ [(k, v)]"
  by (induction d) (auto simp: dict_contains_def dict_setitem_def)

lemma dict_get_setitem:
  "dict_get k' (dict_setitem k v d) = (if k' = k then Some v else dict_get k' d)"
  by (simp add: dict_get_def dict_setitem_def update_conv')

lemma dict_contains_append:
  "dict_contains k (d @ [(k', v)]) = (dict_contains k d \<or> k = k')"
  by (auto simp: dict_contains_def map_add_def split: option.splits)

subsection \<open>Effect of the stock operations on success\<close>

lemma add_stock_effect:
  assumes "ProductDAO_get s st = Some a"
    and "a < length (heap st)"
    and "0 < q"
    and "\<not> dict_contains (uuids st (drawn st)) (transactions st)"
  shows "fst (add_stock s q n st) = (True, msg_updated (stock_quantity (deref st a) + q)) \<and>
         ProductDAO_get s (snd (add_stock s q n st)) = Some a \<and>
         length (heap (snd (add_stock s q n st))) = length (heap st) \<and>
         stock_quantity (deref (snd (add_stock s q n st)) a) = stock_quantity (deref st a) + q \<and>
         uuids (snd (add_stock s q n st)) = uuids st \<and>
         drawn (snd (add_stock s q n st)) = Suc (drawn st) \<and>
         (\<exists>t. transactions (snd (add_stock s q n st)) =
                 transactions st @ [(uuids st (drawn st), t)] \<and>
              transaction_type t = ''purchase'' \<and> quantity t = q \<and> product_sku t = s)"
  using assms
  by (simp add: add_stock_def Let_def datetime_now_def modify_def deref_def
      ProductDAO_save_def ProductDAO_get_def dict_get_setitem
      record_transaction_def Transaction_new_def uuid4_def TransactionDAO_save_def
      dict_setitem_fresh split: prod.splits)

lemma remove_stock_effect:
  assumes "ProductDAO_get s st = Some a"
    and "a < length (heap st)"
    and "0 < q"
    and "q \<le> stock_quantity (deref st a)"
    and "\<not> dict_contains (uuids st (drawn st)) (transactions st)"
  shows "fst (remove_stock s q n st) = (True, msg_updated (stock_quantity (deref st a) - q)) \<and>
         ProductDAO_get s (snd (remove_stock s q n st)) = Some a \<and>
         length (heap (snd (remove_stock s q n st))) = length (heap st) \<and>
         stock_quantity (deref (snd (remove_stock s q n st)) a) = stock_quantity (deref st a) - q \<and>
         uuids (snd (remove_stock s q n st)) = uuids st \<and>
         drawn (snd (remove_stock s q n st)) = Suc (drawn st) \<and>
         (\<exists>t. transactions (snd (remove_stock s q n st)) =
                 transactions st @ [(uuids st (drawn st), t)] \<and>
              transaction_type t = ''sale'' \<and> quantity t = - q \<and> product_sku t = s)"
  using assms
  by (simp add: remove_stock_def Let_def datetime_now_def modify_def deref_def
      ProductDAO_save_def ProductDAO_get_def dict_get_setitem
      record_transaction_def Transaction_new_def uuid4_def TransactionDAO_save_def
      dict_setitem_fresh split: prod.splits)

lemma example_state_facts:
  "ProductDAO_get ''AB12CD34'' example_state = Some 0"
  "0 < length (heap example_state)"
  "deref example_state 0 = example_product"
  "transactions example_state = []"
  "uuids example_state (drawn example_state) = ''0f8fad5b-d9cb-469f-a165-70867728950e''"
  "uuids example_state (Suc (drawn example_state)) = ''7c9e6679-7425-40de-944b-e07fc1f90ae7''"
  by (simp_all add: ProductDAO_get_def dict_get_def deref_def example_state_def)

text \<open>
  C4. For a product stored under \<open>s\<close> and a new quantity that is not negative,
  \<open>adjust_stock\<close> succeeds, the product's stock quantity becomes the new quantity, and the
  transaction log grows by exactly one record, of kind adjustment, whose quantity is the
  new quantity minus the old one (0 when they are equal). The identifier drawn for the
  record is taken to be new to the log, as a fresh UUID is.
\<close>

theorem adjust_stock_records_difference:
  assumes "ProductDAO_get s st = Some a"
    and "a < length (heap st)"
    and "0 \<le> new_q"
    and "\<not> dict_contains (uuids st (drawn st)) (transactions st)"
  shows "fst (adjust_stock s new_q n st) = (True, msg_adjusted new_q) \<and>
         get_product s (snd (adjust_stock s new_q n st)) = Some a \<and>
         stock_quantity (deref (snd (adjust_stock s new_q n st)) a) = new_q \<and>
         (\<exists>t. TransactionDAO_get_all (snd (adjust_stock s new_q n st)) =
                 TransactionDAO_get_all st @ [t] \<and>
              transaction_type t = ''adjustment'' \<and>
              quantity t = new_q - stock_quantity (deref st a) \<and>
              product_sku t = s)"
  using assms
  by (simp add: adjust_stock_def Let_def datetime_now_def modify_def deref_def
      ProductDAO_save_def ProductDAO_get_def get_product_def dict_get_setitem
      record_transaction_def Transaction_new_def uuid4_def TransactionDAO_save_def
      TransactionDAO_get_all_def dict_values_def dict_setitem_fresh split: prod.splits)

theorem adjust_stock_records_difference_witness:
  "fst (fst (adjust_stock ''AB12CD34'' 3 [] example_state)) = True \<and>
   stock_quantity (deref (snd (adjust_stock ''AB12CD34'' 3 [] example_state)) 0) = 3 \<and>
   map quantity (TransactionDAO_get_all (snd (adjust_stock ''AB12CD34'' 3 [] example_state))) = [0] \<and>
   map quantity (TransactionDAO_get_all (snd (adjust_stock ''AB12CD34'' 7 [] example_state))) = [4]"
proof -
  have f: "\<not> dict_contains (uuids example_state (drawn example_state)) (transactions example_state)"
    by (simp add: example_state_facts dict_contains_def)
  have e: "TransactionDAO_get_all example_state = []"
    by (simp add: TransactionDAO_get_all_def dict_values_def example_state_facts)
  have q: "stock_quantity (deref example_state 0) = 3"
    by (simp add: example_state_facts example_product_def)
  have "(0::int) \<le> 3" and "(0::int) \<le> 7"
    by simp_all
  note A = adjust_stock_records_difference
    [OF example_state_facts(1) example_state_facts(2) \<open>(0::int) \<le> 3\<close> f, of "[]"]
  note B = adjust_stock_records_difference
    [OF example_state_facts(1) example_state_facts(2) \<open>(0::int) \<le> 7\<close> f, of "[]"]
  from A e q
  have "map quantity (TransactionDAO_get_all (snd (adjust_stock ''AB12CD34'' 3 [] example_state))) = [0]"
    by auto
  moreover from B e q
  have "map quantity (TransactionDAO_get_all (snd (adjust_stock ''AB12CD34'' 7 [] example_state))) = [4]"
    by auto
  moreover from A
  have "fst (fst (adjust_stock ''AB12CD34'' 3 [] example_state)) = True"
    "stock_quantity (deref (snd (adjust_stock ''AB12CD34'' 3 [] example_state)) 0) = 3"
    by simp_all
  ultimately show ?thesis by simp
qed

text \<open>
  C5. For a product stored under \<open>s\<close> (with a stock that is not negative, as the data model
  has it) and a quantity \<open>q > 0\<close>, \<open>add_stock\<close> followed at once by \<open>remove_stock\<close> with the
  same quantity both succeed, the stock quantity is what it was before the pair, and the
  transaction log grows by exactly two records: a purchase of \<open>q\<close>, then a sale of \<open>-q\<close>. The
  two identifiers drawn are taken to be new to the log and different from each other.
\<close>

theorem add_stock_then_remove_stock:
  assumes "ProductDAO_get s st = Some a"
    and "a < length (heap st)"
    and "0 \<le> stock_quantity (deref st a)"
    and "0 < q"
    and "\<not> dict_contains (uuids st (drawn st)) (transactions st)"
    and "\<not> dict_contains (uuids st (Suc (drawn st))) (transactions st)"
    and "uuids st (Suc (drawn st)) \<noteq> uuids st (drawn st)"
  shows "fst (fst (add_stock s q n1 st)) = True \<and>
         fst (fst (remove_stock s q n2 (snd (add_stock s q n1 st)))) = True \<and>
         get_product s (snd (remove_stock s q n2 (snd (add_stock s q n1 st)))) = Some a \<and>
         stock_quantity (deref (snd (remove_stock s q n2 (snd (add_stock s q n1 st)))) a) =
           stock_quantity (deref st a) \<and>
         (\<exists>t1 t2. TransactionDAO_get_all (snd (remove_stock s q n2 (snd (add_stock s q n1 st)))) =
                    TransactionDAO_get_all st @ [t1, t2] \<and>
                  transaction_type t1 = ''purchase'' \<and> quantity t1 = q \<and> product_sku t1 = s \<and>
                  transaction_type t2 = ''sale'' \<and> quantity t2 = - q \<and> product_sku t2 = s)"
proof -
  let ?st1 = "snd (add_stock s q n1 st)"
  let ?st2 = "snd (remove_stock s q n2 ?st1)"
  note A = add_stock_effect [OF assms(1) assms(2) assms(4) assms(5), of n1]
  from A obtain t1 where t1: "transactions ?st1 = transactions st @ [(uuids st (drawn st), t1)]"
    "transaction_type t1 = ''purchase''" "quantity t1 = q" "product_sku t1 = s"
    by blast
  have g1: "ProductDAO_get s ?st1 = Some a" and l1: "a < length (heap ?st1)"
    and q1: "q \<le> stock_quantity (deref ?st1 a)"
    using A assms(2) assms(3) by simp_all
  have f1: "\<not> dict_contains (uuids ?st1 (drawn ?st1)) (transactions ?st1)"
    using A t1(1) assms(6) assms(7) by (simp add: dict_contains_append)
  note R = remove_stock_effect [OF g1 l1 assms(4) q1 f1, of n2]
  from R obtain t2 where t2: "transactions ?st2 = transactions ?st1 @ [(uuids ?st1 (drawn ?st1), t2)]"
    "transaction_type t2 = ''sale''" "quantity t2 = - q" "product_sku t2 = s"
    by blast
  have "TransactionDAO_get_all ?st2 = TransactionDAO_get_all st @ [t1, t2]"
    using t1(1) t2(1) by (simp add: TransactionDAO_get_all_def dict_values_def)
  with t1 t2 have "\<exists>t1 t2. TransactionDAO_get_all ?st2 = TransactionDAO_get_all st @ [t1, t2] \<and>
                  transaction_type t1 = ''purchase'' \<and> quantity t1 = q \<and> product_sku t1 = s \<and>
                  transaction_type t2 = ''sale'' \<and> quantity t2 = - q \<and> product_sku t2 = s"
    by blast
  moreover have "fst (fst (add_stock s q n1 st)) = True" using A by simp
  moreover have "fst (fst (remove_stock s q n2 ?st1)) = True" using R by simp
  moreover have "get_product s ?st2 = Some a" using R by (simp add: get_product_def)
  moreover have "stock_quantity (deref ?st2 a) = stock_quantity (deref st a)"
    using A R by simp
  ultimately show ?thesis by blast
qed

theorem add_stock_then_remove_stock_witness:
  "stock_quantity
     (deref (snd (remove_stock ''AB12CD34'' 2 [] (snd (add_stock ''AB12CD34'' 2 [] example_state)))) 0) = 3 \<and>
   map quantity
     (TransactionDAO_get_all
        (snd (remove_stock ''AB12CD34'' 2 [] (snd (add_stock ''AB12CD34'' 2 [] example_state))))) = [2, - 2]"
proof -
  have f: "\<not> dict_contains (uuids example_state (drawn example_state)) (transactions example_state)"
    "\<not> dict_contains (uuids example_state (Suc (drawn example_state))) (transactions example_state)"
    "uuids example_state (Suc (drawn example_state)) \<noteq> uuids example_state (drawn example_state)"
    by (simp_all add: example_state_facts dict_contains_def)
  have e: "TransactionDAO_get_all example_state = []"
    by (simp add: TransactionDAO_get_all_def dict_values_def example_state_facts)
  have q: "stock_quantity (deref example_state 0) = 3"
    by (simp add: example_state_facts example_product_def)
  have p: "(0::int) \<le> stock_quantity (deref example_state 0)" "(0::int) < 2"
    by (simp_all add: q)
  from add_stock_then_remove_stock
    [OF example_state_facts(1) example_state_facts(2) p(1) p(2) f(1) f(2) f(3), of "[]" "[]"] e q
  show ?thesis by auto
qed

subsection \<open>Persistence layer\<close>

text \<open>
  C10. \<open>ProductDAO.save\<close> returns \<open>True\<close> and stores the product under its sku. When the
  sku is already a key of the dictionary, the stored product is the given one with
  \<open>updated_at\<close> set to the current time; when the sku is new, the stored product is the
  given one unchanged. In both cases every other field is as given.
\<close>

theorem ProductDAO_save_refreshes_on_overwrite:
  assumes "a < length (heap st)"
  shows "fst (ProductDAO_save a st) = True \<and>
         ProductDAO_get (sku (deref st a)) (snd (ProductDAO_save a st)) = Some a \<and>
         (dict_contains (sku (deref st a)) (products st) \<longrightarrow>
            deref (snd (ProductDAO_save a st)) a = (deref st a)\<lparr>updated_at := clock st (ticks st)\<rparr>) \<and>
         (\<not> dict_contains (sku (deref st a)) (products st) \<longrightarrow>
            deref (snd (ProductDAO_save a st)) a = deref st a)"
  using assms
  by (simp add: ProductDAO_save_def Let_def datetime_now_def modify_def deref_def
      ProductDAO_get_def dict_get_setitem)

theorem ProductDAO_save_refreshes_on_overwrite_witness:
  "deref (snd (ProductDAO_save 0 example_state)) 0 =
     example_product\<lparr>updated_at := example_time\<lparr>second := 1\<rparr>\<rparr> \<and>
   deref (snd (ProductDAO_save 0 (example_state\<lparr>products := []\<rparr>))) 0 = example_product"
proof -
  have l: "0 < length (heap example_state)"
    "0 < length (heap (example_state\<lparr>products := []\<rparr>))"
    by (simp_all add: example_state_def)
  have d: "deref example_state 0 = example_product"
    "deref (example_state\<lparr>products := []\<rparr>) 0 = example_product"
    by (simp_all add: deref_def example_state_def)
  have c: "dict_contains (sku example_product) (products example_state)"
    "\<not> dict_contains (sku example_product) (products (example_state\<lparr>products := []\<rparr>))"
    by (simp_all add: dict_contains_def example_state_def example_product_def)
  have t: "clock example_state (ticks example_state) = example_time\<lparr>second := 1\<rparr>"
    by (simp add: example_state_def)
  from ProductDAO_save_refreshes_on_overwrite [OF l(1)] d(1) c(1) t
  have "deref (snd (ProductDAO_save 0 example_state)) 0 =
     example_product\<lparr>updated_at := example_time\<lparr>second := 1\<rparr>\<rparr>"
    by simp
  moreover from ProductDAO_save_refreshes_on_overwrite [OF l(2)] d(2) c(2)
  have "deref (snd (ProductDAO_save 0 (example_state\<lparr>products := []\<rparr>))) 0 = example_product"
    by simp
  ultimately show ?thesis by simp
qed

subsection \<open>The product-store invariant\<close>

lemma store_invariant_iff:
  "store_invariant st = (\<forall>a \<in> snd ` set (products st). product_invariant (deref st a))"
  by (auto simp: store_invariant_def ProductDAO_get_all_def dict_values_def list_all_iff)

lemma refs_valid_iff:
  "refs_valid st = (\<forall>a \<in> snd ` set (products st). a < length (heap st))"
  by (auto simp: refs_valid_def dict_values_def list_all_iff)

lemma values_setitem:
  "snd ` set (dict_setitem k v d) \<subseteq> insert v (snd ` set d)"
  by (induction d) (auto simp: dict_setitem_def)

lemma values_delitem:
  "snd ` set (dict_delitem k d) \<subseteq> snd ` set d"
  by (auto simp: dict_delitem_def AList.delete_eq)

lemma dict_get_values:
  "dict_get k d = Some v \<Longrightarrow> v \<in> snd ` set d"
  by (auto simp: dict_get_def dest!: map_of_SomeD intro: rev_image_eqI)

lemma deref_modify:
  "deref (modify a f st) b =
     (if b = a \<and> a < length (heap st) then f (deref st a) else deref st b)"
proof (cases "b = a")
  case True
  then show ?thesis
    by (cases "a < length (heap st)") (simp_all add: deref_def modify_def list_update_beyond)
next
  case False
  then show ?thesis
    by (simp add: deref_def modify_def)
qed

lemma deref_datetime_now [simp]: "deref (snd (datetime_now st)) b = deref st b"
  by (simp add: deref_def datetime_now_def)

lemma length_heap_datetime_now [simp]: "length (heap (snd (datetime_now st))) = length (heap st)"
  by (simp add: datetime_now_def)

lemma products_modify [simp]: "products (modify a f st) = products st"
  by (simp add: modify_def)

lemma length_heap_modify [simp]: "length (heap (modify a f st)) = length (heap st)"
  by (simp add: modify_def)

lemma store_invariant_modify:
  assumes "store_invariant st" and "product_invariant (deref st a) \<Longrightarrow> product_invariant (f (deref st a))"
  shows "store_invariant (modify a f st)"
  using assms by (auto simp: store_invariant_iff deref_modify)

lemma refs_valid_modify: "refs_valid st \<Longrightarrow> refs_valid (modify a f st)"
  by (simp add: refs_valid_iff)

lemma datetime_now_same [simp]:
  "heap (snd (datetime_now st)) = heap st" "products (snd (datetime_now st)) = products st"
  by (simp_all add: datetime_now_def)

lemma record_transaction_same [simp]:
  "heap (snd (record_transaction ps q tt n st)) = heap st"
  "products (snd (record_transaction ps q tt n st)) = products st"
  by (simp_all add: record_transaction_def Transaction_new_def TransactionDAO_save_def
      uuid4_def datetime_now_def Let_def)

lemma ProductDAO_save_unfold:
  "snd (ProductDAO_save a st) =
     (let st1 = (if dict_contains (sku (deref st a)) (products st)
                 then modify a (\<lambda>p. p\<lparr>updated_at := clock st (ticks st)\<rparr>) (snd (datetime_now st))
                 else st)
      in st1\<lparr>products := dict_setitem (sku (deref st1 a)) a (products st1)\<rparr>)"
  by (simp add: ProductDAO_save_def Let_def datetime_now_def)

lemma store_invariant_save:
  assumes "store_invariant st" and "product_invariant (deref st a)"
  shows "store_invariant (snd (ProductDAO_save a st))"
proof -
  define st1 where "st1 =
    (if dict_contains (sku (deref st a)) (products st)
     then modify a (\<lambda>p. p\<lparr>updated_at := clock st (ticks st)\<rparr>) (snd (datetime_now st))
     else st)"
  have g: "product_invariant (deref st b) \<Longrightarrow> product_invariant (deref st1 b)" for b
    by (auto simp: st1_def deref_modify product_invariant_def)
  have p: "products st1 = products st"
    by (simp add: st1_def)
  have s: "snd (ProductDAO_save a st) =
           st1\<lparr>products := dict_setitem (sku (deref st1 a)) a (products st1)\<rparr>"
    by (simp add: ProductDAO_save_unfold st1_def Let_def)
  have "\<forall>b \<in> insert a (snd ` set (products st)). product_invariant (deref st1 b)"
    using assms g by (simp add: store_invariant_iff)
  moreover have "snd ` set (dict_setitem (sku (deref st1 a)) a (products st1))
                   \<subseteq> insert a (snd ` set (products st))"
    using values_setitem [of "sku (deref st1 a)" a "products st1"] by (simp only: p)
  ultimately have "\<forall>b \<in> snd ` set (dict_setitem (sku (deref st1 a)) a (products st1)).
                      product_invariant (deref st1 b)"
    by blast
  then show ?thesis
    by (simp add: s store_invariant_iff deref_def)
qed

lemma refs_valid_save:
  assumes "refs_valid st" and "a < length (heap st)"
  shows "refs_valid (snd (ProductDAO_save a st))"
proof -
  define st1 where "st1 =
    (if dict_contains (sku (deref st a)) (products st)
     then modify a (\<lambda>p. p\<lparr>updated_at := clock st (ticks st)\<rparr>) (snd (datetime_now st))
     else st)"
  have l: "length (heap st1) = length (heap st)" and p: "products st1 = products st"
    by (simp_all add: st1_def)
  have s: "snd (ProductDAO_save a st) =
           st1\<lparr>products := dict_setitem (sku (deref st1 a)) a (products st1)\<rparr>"
    by (simp add: ProductDAO_save_unfold st1_def Let_def)
  have "\<forall>b \<in> insert a (snd ` set (products st)). b < length (heap st)"
    using assms by (simp add: refs_valid_iff)
  moreover have "snd ` set (dict_setitem (sku (deref st1 a)) a (products st1))
                   \<subseteq> insert a (snd ` set (products st))"
    using values_setitem [of "sku (deref st1 a)" a "products st1"] by (simp only: p)
  ultimately have "\<forall>b \<in> snd ` set (dict_setitem (sku (deref st1 a)) a (products st1)).
                      b < length (heap st)"
    by blast
  then show ?thesis
    by (simp add: s refs_valid_iff l)
qed

lemma heap_save_length [simp]:
  "length (heap (snd (ProductDAO_save a st))) = length (heap st)"
  by (simp add: ProductDAO_save_unfold Let_def)


lemma consistent_cong:
  "heap st' = heap st \<Longrightarrow> products st' = products st \<Longrightarrow> consistent st' = consistent st"
  by (simp add: consistent_def store_invariant_iff refs_valid_iff deref_def)

lemma consistent_modify:
  assumes "consistent st" and "product_invariant (deref st a) \<Longrightarrow> product_invariant (f (deref st a))"
  shows "consistent (modify a f st)"
  using assms by (simp add: consistent_def store_invariant_modify refs_valid_modify)

lemma consistent_lookup:
  "consistent st \<Longrightarrow> ProductDAO_get s st = Some a \<Longrightarrow> product_invariant (deref st a) \<and> a < length (heap st)"
  by (auto simp: consistent_def store_invariant_iff refs_valid_iff ProductDAO_get_def
      dest: dict_get_values)

lemma consistent_save:
  "consistent st \<Longrightarrow> product_invariant (deref st a) \<Longrightarrow> a < length (heap st) \<Longrightarrow>
   consistent (snd (ProductDAO_save a st))"
  by (simp add: consistent_def store_invariant_save refs_valid_save)

lemma consistent_datetime_now: "consistent (snd (datetime_now st)) = consistent st"
  by (rule consistent_cong) simp_all

lemma consistent_record_transaction:
  "consistent (snd (record_transaction ps q tt n st)) = consistent st"
  by (rule consistent_cong) simp_all

lemma ProductDAO_get_modify [simp]: "ProductDAO_get s (modify a f st) = ProductDAO_get s st"
  by (simp add: ProductDAO_get_def)

lemma ProductDAO_get_datetime_now [simp]:
  "ProductDAO_get s (snd (datetime_now st)) = ProductDAO_get s st"
  by (simp add: ProductDAO_get_def)

text \<open>The common tail of the three stock operations.\<close>

lemma stock_change_consistent:
  assumes "consistent st" and "ProductDAO_get s st = Some a"
    and "product_invariant (deref st a) \<Longrightarrow> product_invariant (f (deref st a))"
    and "datetime_now (modify a f st) = (t, st2)"
    and "ProductDAO_save a (modify a (\<lambda>p. p\<lparr>updated_at := t\<rparr>) st2) = (ok, st4)"
    and "record_transaction ps d tt n st4 = (tr, st5)"
  shows "consistent st5"
proof -
  let ?st1 = "modify a f st"
  let ?st3 = "modify a (\<lambda>p. p\<lparr>updated_at := t\<rparr>) st2"
  have s2: "st2 = snd (datetime_now ?st1)" and s4: "st4 = snd (ProductDAO_save a ?st3)"
    and s5: "st5 = snd (record_transaction ps d tt n st4)"
    using assms(4) assms(5) assms(6) by simp_all
  have c1: "consistent ?st1"
    using assms(1) assms(3) by (rule consistent_modify)
  then have c2: "consistent st2"
    by (simp add: s2 consistent_datetime_now)
  then have c3: "consistent ?st3"
    by (rule consistent_modify) (simp add: product_invariant_def)
  have "ProductDAO_get s ?st3 = Some a"
    using assms(2) by (simp add: s2)
  with c3 have "product_invariant (deref ?st3 a) \<and> a < length (heap ?st3)"
    by (rule consistent_lookup)
  with c3 have "consistent st4"
    by (simp add: s4 consistent_save)
  then show ?thesis
    by (simp add: s5 consistent_record_transaction)
qed

lemma add_stock_consistent:
  assumes "consistent st"
  shows "consistent (snd (add_stock s q n st))"
proof (cases "q \<le> 0 \<or> ProductDAO_get s st = None")
  case True
  then show ?thesis
    using assms by (auto simp: add_stock_def)
next
  case False
  then obtain a where a: "ProductDAO_get s st = Some a" and q: "0 < q"
    by auto
  let ?f = "\<lambda>p. p\<lparr>stock_quantity := stock_quantity p + q\<rparr>"
  obtain t st2 where n: "datetime_now (modify a ?f st) = (t, st2)"
    by fastforce
  obtain ok st4 where sv: "ProductDAO_save a (modify a (\<lambda>p. p\<lparr>updated_at := t\<rparr>) st2) = (ok, st4)"
    by fastforce
  obtain tr st5 where rt: "record_transaction s q ''purchase'' n st4 = (tr, st5)"
    by fastforce
  have "snd (add_stock s q n st) = st5"
    using a q n sv rt by (simp add: add_stock_def Let_def)
  moreover have "consistent st5"
    using assms a _ n sv rt
  proof (rule stock_change_consistent)
    show "product_invariant (deref st a) \<Longrightarrow> product_invariant (?f (deref st a))"
      using q by (simp add: product_invariant_def)
  qed
  ultimately show ?thesis by simp
qed


lemma remove_stock_consistent:
  assumes "consistent st"
  shows "consistent (snd (remove_stock s q n st))"
proof (cases "q \<le> 0 \<or> ProductDAO_get s st = None")
  case True
  then show ?thesis
    using assms by (auto simp: remove_stock_def)
next
  case False
  then obtain a where a: "ProductDAO_get s st = Some a" and q: "0 < q"
    by auto
  show ?thesis
  proof (cases "stock_quantity (deref st a) < q")
    case True
    then show ?thesis
      using assms a q by (simp add: remove_stock_def)
  next
    case enough: False
    let ?f = "\<lambda>p. p\<lparr>stock_quantity := stock_quantity p - q\<rparr>"
    obtain t st2 where n: "datetime_now (modify a ?f st) = (t, st2)"
      by fastforce
    obtain ok st4 where sv: "ProductDAO_save a (modify a (\<lambda>p. p\<lparr>updated_at := t\<rparr>) st2) = (ok, st4)"
      by fastforce
    obtain tr st5 where rt: "record_transaction s (- q) ''sale'' n st4 = (tr, st5)"
      by fastforce
    have "snd (remove_stock s q n st) = st5"
      using a q enough n sv rt by (simp add: remove_stock_def Let_def)
    moreover have "consistent st5"
      using assms a _ n sv rt
    proof (rule stock_change_consistent)
      show "product_invariant (deref st a) \<Longrightarrow> product_invariant (?f (deref st a))"
        using enough by (simp add: product_invariant_def)
    qed
    ultimately show ?thesis by simp
  qed
qed

lemma adjust_stock_consistent:
  assumes "consistent st"
  shows "consistent (snd (adjust_stock s new_q n st))"
proof (cases "new_q < 0 \<or> ProductDAO_get s st = None")
  case True
  then show ?thesis
    using assms by (auto simp: adjust_stock_def)
next
  case False
  then obtain a where a: "ProductDAO_get s st = Some a" and q: "0 \<le> new_q"
    by auto
  let ?f = "\<lambda>p. p\<lparr>stock_quantity := new_q\<rparr>"
  obtain t st2 where n: "datetime_now (modify a ?f st) = (t, st2)"
    by fastforce
  obtain ok st4 where sv: "ProductDAO_save a (modify a (\<lambda>p. p\<lparr>updated_at := t\<rparr>) st2) = (ok, st4)"
    by fastforce
  obtain tr st5 where rt:
    "record_transaction s (new_q - stock_quantity (deref st a)) ''adjustment'' n st4 = (tr, st5)"
    by fastforce
  have "snd (adjust_stock s new_q n st) = st5"
    using a q n sv rt by (simp add: adjust_stock_def Let_def)
  moreover have "consistent st5"
    using assms a _ n sv rt
  proof (rule stock_change_consistent)
    show "product_invariant (deref st a) \<Longrightarrow> product_invariant (?f (deref st a))"
      using q by (simp add: product_invariant_def)
  qed
  ultimately show ?thesis by simp
qed

lemma set_delitem: "set (dict_delitem k d) \<subseteq> set d"
  by (auto simp: dict_delitem_def AList.delete_eq)

lemma values_delitem_state:
  "consistent st \<Longrightarrow> consistent (st\<lparr>products := dict_delitem s (products st)\<rparr>)"
  by (auto simp: consistent_def store_invariant_iff refs_valid_iff deref_def
      dest!: set_mp [OF set_delitem])

lemma delete_product_consistent:
  assumes "consistent st"
  shows "consistent (snd (delete_product s st))"
proof (cases "ProductDAO_get s st")
  case None
  then show ?thesis
    using assms by (simp add: delete_product_def)
next
  case (Some a)
  define st1 where "st1 =
    (if 0 < stock_quantity (deref st a)
     then snd (record_transaction s (- stock_quantity (deref st a)) ''adjustment''
                 (''Eliminaci'' @ [o_acute] @ ''n del producto '' @ name (deref st a)) st)
     else st)"
  have c1: "consistent st1"
    using assms by (simp add: st1_def consistent_record_transaction)
  have "snd (delete_product s st) = snd (ProductDAO_delete s st1)"
    using Some by (simp add: delete_product_def st1_def Let_def)
  moreover have "consistent (snd (ProductDAO_delete s st1))"
    using c1 by (simp add: ProductDAO_delete_def values_delitem_state)
  ultimately show ?thesis by simp
qed


lemma float_gt_zeroI: "\<not> float_le_zero x \<Longrightarrow> x \<noteq> NaN \<Longrightarrow> float_gt_zero x"
  by (cases x) auto

lemma Product_new_consistent:
  assumes "consistent st" and "Product_new n d c pr q st = (a, st1)"
    and "float_gt_zero pr" and "0 \<le> q"
  shows "consistent st1 \<and> a < length (heap st1) \<and> product_invariant (deref st1 a)"
proof -
  define V where "V = snd ` set (products st)"
  obtain p where h: "heap st1 = heap st @ [p]" "products st1 = products st"
    "a = length (heap st)" "product_invariant p"
    using assms(2) assms(3) assms(4)
    by (auto simp: Product_new_def uuid4_def datetime_now_def Let_def product_invariant_def)
  have old: "deref st1 b = deref st b" if "b < length (heap st)" for b
    using that by (simp add: deref_def h nth_append)
  have "\<forall>b \<in> V. product_invariant (deref st b) \<and> b < length (heap st)"
    using assms(1) by (simp add: consistent_def store_invariant_iff refs_valid_iff V_def)
  then have "\<forall>b \<in> V. product_invariant (deref st1 b) \<and> b < length (heap st1)"
    by (auto simp: old h)
  then have "consistent st1"
    by (simp add: consistent_def store_invariant_iff refs_valid_iff V_def h)
  moreover have "a < length (heap st1)" and "product_invariant (deref st1 a)"
    by (simp_all add: deref_def h)
  ultimately show ?thesis by simp
qed

lemma add_product_consistent:
  assumes "consistent st" and "pr \<noteq> NaN"
  shows "consistent (snd (add_product n d cat pr q st))"
proof (cases "ProductCategory_getitem (upper cat)")
  case (Inl e)
  then show ?thesis
    using assms by (simp add: add_product_def)
next
  case (Inr c)
  show ?thesis
  proof (cases "float_le_zero pr \<or> q < 0")
    case True
    then show ?thesis
      using assms Inr by (auto simp: add_product_def)
  next
    case False
    then have pos: "float_gt_zero pr" and q: "0 \<le> q"
      using assms(2) by (simp_all add: float_gt_zeroI)
    obtain a st1 where nw: "Product_new n d c pr q st = (a, st1)"
      by fastforce
    obtain ok st2 where sv: "ProductDAO_save a st1 = (ok, st2)"
      by fastforce
    have c1: "consistent st1 \<and> a < length (heap st1) \<and> product_invariant (deref st1 a)"
      using assms(1) nw pos q by (rule Product_new_consistent)
    then have c2: "consistent st2"
      using sv consistent_save [of st1 a] by simp
    let ?st3 = "if 0 < q
                then snd (record_transaction (sku (deref st2 a)) q ''purchase''
                            (''Inventario inicial para '' @ name (deref st2 a)) st2)
                else st2"
    have "snd (add_product n d cat pr q st) = ?st3"
      using Inr False nw sv by (simp add: add_product_def Let_def)
    moreover have "consistent ?st3"
      using c2 by (simp add: consistent_record_transaction)
    ultimately show ?thesis by simp
  qed
qed

lemma update_product_consistent:
  assumes "consistent st" and "kw_price kw \<noteq> Some NaN"
  shows "consistent (snd (update_product s kw st))"
proof (cases "ProductDAO_get s st")
  case None
  then show ?thesis
    using assms by (simp add: update_product_def)
next
  case (Some a)
  let ?P = "\<lambda>x. consistent x \<and> ProductDAO_get s x = Some a"
  let ?st1 = "case kw_name kw of None \<Rightarrow> st | Some n \<Rightarrow> modify a (\<lambda>p. p\<lparr>name := n\<rparr>) st"
  let ?st2 = "case kw_description kw of None \<Rightarrow> ?st1
              | Some d \<Rightarrow> modify a (\<lambda>p. p\<lparr>description := d\<rparr>) ?st1"
  define r3 where "r3 =
    (case kw_category kw of
       None \<Rightarrow> Inr ?st2
     | Some c \<Rightarrow>
         (case ProductCategory_getitem (upper c) of
            Inl e \<Rightarrow> Inl (ValueError (msg_invalid_category @ c))
          | Inr ce \<Rightarrow> Inr (modify a (\<lambda>p. p\<lparr>category := ce\<rparr>) ?st2)))"
  define r4 where "r4 = (\<lambda>st3.
    case kw_price kw of
      None \<Rightarrow> Inr st3
    | Some pr \<Rightarrow>
        if float_le_zero pr then Inl (ValueError msg_invalid_price)
        else Inr (modify a (\<lambda>p. p\<lparr>price := pr\<rparr>) st3))"
  define fin where "fin = (\<lambda>st4.
    snd (ProductDAO_save a
           (modify a (\<lambda>p. p\<lparr>updated_at := fst (datetime_now st4)\<rparr>) (snd (datetime_now st4)))))"
  have U: "snd (update_product s kw st) =
             (case r3 of
                Inl e \<Rightarrow> ?st2
              | Inr st3 \<Rightarrow> (case r4 st3 of Inl e \<Rightarrow> st3 | Inr st4 \<Rightarrow> fin st4))"
    using Some
    by (simp add: update_product_def Let_def r3_def r4_def fin_def split_beta
        split: sum.splits option.splits)
  have c1: "?P ?st1"
    using assms(1) Some
    by (cases "kw_name kw") (auto intro!: consistent_modify simp: product_invariant_def)
  have c2: "?P ?st2"
    using c1
    by (cases "kw_description kw") (auto intro!: consistent_modify simp: product_invariant_def)
  have c3: "?P st3" if "r3 = Inr st3" for st3
    using that c2
    by (cases "kw_category kw")
       (auto simp: r3_def product_invariant_def split: sum.splits intro!: consistent_modify)
  have c4: "?P st4" if "?P st3" and "r4 st3 = Inr st4" for st3 st4
    using that assms(2)
    by (cases "kw_price kw")
       (auto simp: r4_def product_invariant_def float_gt_zeroI split: if_splits intro!: consistent_modify)
  have c5: "consistent (fin st4)" if "?P st4" for st4
  proof -
    let ?st6 = "modify a (\<lambda>p. p\<lparr>updated_at := fst (datetime_now st4)\<rparr>) (snd (datetime_now st4))"
    have "consistent (snd (datetime_now st4))"
      using that by (simp add: consistent_datetime_now)
    then have "consistent ?st6"
      by (rule consistent_modify) (simp add: product_invariant_def)
    moreover have "ProductDAO_get s ?st6 = Some a"
      using that by simp
    ultimately show ?thesis
      using consistent_lookup [of ?st6 s a] consistent_save [of ?st6 a] by (simp add: fin_def)
  qed
  show ?thesis
  proof (cases r3)
    case (Inl e)
    then show ?thesis
      using c2 by (simp add: U)
  next
    case r3: (Inr st3)
    then have p3: "?P st3"
      by (rule c3)
    show ?thesis
    proof (cases "r4 st3")
      case (Inl e)
      then show ?thesis
        using p3 r3 by (simp add: U)
    next
      case r4: (Inr st4)
      from p3 r4 have "?P st4"
        by (rule c4)
      then have "consistent (fin st4)"
        by (rule c5)
      then show ?thesis
        using r3 r4 by (simp add: U)
    qed
  qed
qed

text \<open>
  Every operation of the service that changes the store keeps the invariant, whether it
  succeeds or fails, as long as no price passed to it is NaN.
\<close>

lemma service_preserves_store_invariant:
  assumes "consistent st"
  shows "pr \<noteq> NaN \<Longrightarrow> consistent (snd (add_product n d cat pr q st))"
    and "kw_price kw \<noteq> Some NaN \<Longrightarrow> consistent (snd (update_product s kw st))"
    and "consistent (snd (add_stock s q n st))"
    and "consistent (snd (remove_stock s q n st))"
    and "consistent (snd (adjust_stock s q n st))"
    and "consistent (snd (delete_product s st))"
  using assms
  by (simp_all add: add_product_consistent update_product_consistent add_stock_consistent
      remove_stock_consistent adjust_stock_consistent delete_product_consistent)

lemma example_upper:
  "ProductCategory_getitem (upper ''toys'') = Inr TOYS"
  "upper ''0f8fad5b'' = ''0F8FAD5B''"
  by code_simp+

text \<open>
  C2. The claim is that every operation keeps the invariant "price > 0 and stock quantity
  >= 0" of the stored products. \<open>add_product\<close> rejects a price with \<^verbatim>\<open>price <= 0\<close>, which is
  false for NaN: on a store that satisfies the invariant, adding a product with price NaN
  succeeds and the store no longer satisfies the invariant.
\<close>

theorem add_product_nan_price_breaks_invariant:
  "store_invariant example_state \<and> refs_valid example_state \<and>
   fst (add_product ''Gadget'' ''A gadget'' ''toys'' NaN 0 example_state) = Inr 1 \<and>
   ProductDAO_get_all (snd (add_product ''Gadget'' ''A gadget'' ''toys'' NaN 0 example_state)) = [0, 1] \<and>
   price (deref (snd (add_product ''Gadget'' ''A gadget'' ''toys'' NaN 0 example_state)) 1) = NaN \<and>
   \<not> store_invariant (snd (add_product ''Gadget'' ''A gadget'' ''toys'' NaN 0 example_state))"
  by (simp add: add_product_def Product_new_def ProductDAO_save_def uuid4_def datetime_now_def
      modify_def deref_def dict_contains_def dict_setitem_def Let_def
      store_invariant_def refs_valid_def product_invariant_def ProductDAO_get_all_def
      dict_values_def example_state_def example_product_def example_upper)

subsection \<open>Validation errors and the state\<close>

text \<open>A validation error of \<open>add_product\<close> leaves the state as it was.\<close>

lemma add_product_error_unchanged:
  "fst (add_product n d cat pr q st) = Inl e \<Longrightarrow> snd (add_product n d cat pr q st) = st"
  by (auto simp: add_product_def Let_def split: sum.splits if_splits prod.splits)

text \<open>
  So does a validation error of \<open>update_product\<close> when the invalid field is the first field
  passed that the function assigns.
\<close>

lemma update_product_error_unchanged:
  assumes "kw_name kw = None" and "kw_description kw = None"
    and "kw_category kw = None \<or> kw_price kw = None"
    and "fst (update_product s kw st) = Inl e"
  shows "snd (update_product s kw st) = st"
  using assms
  by (auto simp: update_product_def Let_def split: option.splits sum.splits if_splits prod.splits)

text \<open>
  C1. The claim is that an operation that raises a validation error changes nothing, and
  that \<open>update_product\<close> with a price that is not positive leaves the product as it was,
  other fields passed alongside included. \<open>update_product\<close> assigns the name and the
  category to the stored object before it checks the price: the call raises
  \<^verbatim>\<open>ValueError\<close>, and the stored product carries the new name and the new category.
\<close>

theorem update_product_invalid_price_keeps_earlier_assignments:
  "name (deref example_state 0) = ''Widget'' \<and>
   category (deref example_state 0) = FOOD \<and>
   fst (update_product ''AB12CD34'' example_bad_update example_state) =
     Inl (ValueError ''El precio debe ser mayor que cero'') \<and>
   get_product ''AB12CD34'' (snd (update_product ''AB12CD34'' example_bad_update example_state)) = Some 0 \<and>
   name (deref (snd (update_product ''AB12CD34'' example_bad_update example_state)) 0) = ''Gadget'' \<and>
   category (deref (snd (update_product ''AB12CD34'' example_bad_update example_state)) 0) = TOYS"
  by (simp add: update_product_def ProductDAO_get_def get_product_def dict_get_def modify_def
      deref_def Let_def msg_invalid_price_def example_bad_update_def example_state_def
      example_product_def example_upper)

subsection \<open>Queries\<close>

text \<open>The low-stock query is a filter over \<open>get_all_products\<close> and returns no state.\<close>

lemma get_low_stock_products_filter:
  "get_low_stock_products t st =
     filter (\<lambda>a. stock_quantity (deref st a) \<le> t) (get_all_products st)"
  by (simp add: get_low_stock_products_def get_all_products_def)

text \<open>
  C7. The claim is that the low-stock query returns exactly the products whose stock
  quantity is below the threshold. The comparison in the code is \<^verbatim>\<open><=\<close>: with a threshold
  of 3, the product whose stock quantity is 3 is returned.
\<close>

theorem get_low_stock_products_includes_threshold:
  "get_all_products example_state = [0] \<and>
   stock_quantity (deref example_state 0) = 3 \<and>
   get_low_stock_products 3 example_state = [0]"
  by (simp add: get_low_stock_products_def get_all_products_def ProductDAO_get_all_def
      dict_values_def deref_def example_state_def example_product_def)

subsection \<open>Timestamps: printing and parsing\<close>

lemma digit_char_cases:
  "k < 10 \<Longrightarrow> k = 0 \<or> k = 1 \<or> k = 2 \<or> k = 3 \<or> k = 4 \<or> k = 5 \<or> k = 6 \<or> k = 7 \<or> k = 8 \<or> k = (9::nat)"
  by arith

lemma of_char_digit_char: "k < 10 \<Longrightarrow> of_char (digit_char k) = (48 + k :: nat)"
  using digit_char_cases [of k] by (auto simp: digit_char_def)

lemma is_digit_digit_char: "k < 10 \<Longrightarrow> is_digit (digit_char k)"
  by (simp add: is_digit_def of_char_digit_char)

lemma all_digits_append: "all_digits (xs @ ys) = (all_digits xs \<and> all_digits ys)"
  by (simp add: all_digits_def)

lemma digits_val_snoc: "digits_val (xs @ [c]) = 10 * digits_val xs + (of_char c - 48)"
  by (simp add: digits_val_def)

lemma all_digits_str_nat: "all_digits (str_nat n)"
proof (induction n rule: str_nat.induct)
  case (1 n)
  show ?case
  proof (cases "n < 10")
    case True
    then show ?thesis
      by (simp add: str_nat.simps [of n] all_digits_def is_digit_digit_char)
  next
    case False
    with "1" show ?thesis
      by (simp add: str_nat.simps [of n] all_digits_append)
         (simp add: all_digits_def is_digit_digit_char)
  qed
qed

lemma digits_val_str_nat: "digits_val (str_nat n) = n"
proof (induction n rule: str_nat.induct)
  case (1 n)
  show ?case
  proof (cases "n < 10")
    case True
    then show ?thesis
      by (simp add: str_nat.simps [of n] digits_val_def of_char_digit_char)
  next
    case False
    with "1" show ?thesis
      by (simp add: str_nat.simps [of n] digits_val_snoc of_char_digit_char)
  qed
qed

lemma length_str_nat_pos: "0 < length (str_nat n)"
  by (subst str_nat.simps) simp

lemma length_str_nat_le: "n < 10 ^ w \<Longrightarrow> 0 < w \<Longrightarrow> length (str_nat n) \<le> w"
proof (induction n arbitrary: w rule: str_nat.induct)
  case (1 n)
  show ?case
  proof (cases "n < 10")
    case True
    then show ?thesis
      using "1.prems" by (simp add: str_nat.simps [of n])
  next
    case False
    then obtain v where w: "w = Suc v"
      using "1.prems" by (cases w) auto
    have "0 < v"
      using False "1.prems" w by (cases v) auto
    moreover have "n div 10 < 10 ^ v"
      using "1.prems" w by (simp add: less_mult_imp_div_less mult.commute)
    ultimately have "length (str_nat (n div 10)) \<le> v"
      using "1.IH" False by simp
    then show ?thesis
      using False w by (simp add: str_nat.simps [of n])
  qed
qed

lemma length_zpad: "n < 10 ^ w \<Longrightarrow> 0 < w \<Longrightarrow> length (zpad w n) = w"
  using length_str_nat_le [of n w] by (simp add: zpad_def)

lemma all_digits_replicate_zero: "all_digits (replicate k (CHR ''0''))"
  by (simp add: all_digits_def list_all_iff is_digit_def)

lemma all_digits_zpad: "all_digits (zpad w n)"
  by (simp add: zpad_def all_digits_append all_digits_str_nat all_digits_replicate_zero)

lemma digits_val_replicate_zero: "digits_val (replicate k (CHR ''0'') @ s) = digits_val s"
  by (induction k) (simp_all add: digits_val_def)

lemma digits_val_zpad: "digits_val (zpad w n) = n"
  by (simp add: zpad_def digits_val_replicate_zero digits_val_str_nat)

lemma parse_date_concat:
  assumes "length Y = 4" and "length M = 2" and "length D = 2"
    and "all_digits Y" and "all_digits M" and "all_digits D"
  shows "parse_date (Y @ CHR ''-'' # M @ CHR ''-'' # D) =
           Some (digits_val Y, digits_val M, digits_val D)"
  using assms by (simp add: parse_date_def slice_def)

lemma parse_time_seconds:
  assumes "length H = 2" and "length M = 2" and "length S = 2"
    and "all_digits H" and "all_digits M" and "all_digits S"
  shows "parse_time (H @ CHR '':'' # M @ CHR '':'' # S) =
           Some (digits_val H, digits_val M, digits_val S, 0)"
  using assms by (simp add: parse_time_def slice_def Let_def)

lemma parse_time_micros:
  assumes "length H = 2" and "length M = 2" and "length S = 2" and "length U = 6"
    and "all_digits H" and "all_digits M" and "all_digits S" and "all_digits U"
  shows "parse_time (H @ CHR '':'' # M @ CHR '':'' # S @ CHR ''.'' # U) =
           Some (digits_val H, digits_val M, digits_val S, digits_val U)"
  using assms by (simp add: parse_time_def slice_def Let_def)

text \<open>Parsing what \<open>isoformat\<close> prints gives the timestamp back.\<close>

lemma naive_isoformat_isoformat:
  assumes "valid_datetime d"
  shows "naive_isoformat (isoformat d) = Some d"
proof -
  define Y where "Y = zpad 4 (year d)"
  define M where "M = zpad 2 (month d)"
  define D where "D = zpad 2 (day d)"
  define H where "H = zpad 2 (hour d)"
  define Mi where "Mi = zpad 2 (minute d)"
  define S where "S = zpad 2 (second d)"
  define U where "U = zpad 6 (microsecond d)"
  define T where "T = H @ CHR '':'' # Mi @ CHR '':'' # S @
    (if microsecond d = 0 then [] else CHR ''.'' # U)"
  have dm: "days_in_month (year d) (month d) \<le> 31"
    by (simp add: days_in_month_def)
  have len: "length Y = 4" "length M = 2" "length D = 2" "length H = 2" "length Mi = 2"
    "length S = 2" "length U = 6"
    using assms dm
    by (simp_all add: valid_datetime_def Y_def M_def D_def H_def Mi_def S_def U_def length_zpad)
  have dig: "all_digits Y" "all_digits M" "all_digits D" "all_digits H" "all_digits Mi"
    "all_digits S" "all_digits U"
    by (simp_all add: Y_def M_def D_def H_def Mi_def S_def U_def all_digits_zpad)
  have val: "digits_val Y = year d" "digits_val M = month d" "digits_val D = day d"
    "digits_val H = hour d" "digits_val Mi = minute d" "digits_val S = second d"
    "digits_val U = microsecond d"
    by (simp_all add: Y_def M_def D_def H_def Mi_def S_def U_def digits_val_zpad)
  define A where "A = Y @ CHR ''-'' # M @ CHR ''-'' # D"
  have iso: "isoformat d = A @ CHR ''T'' # T"
    using assms
    by (simp add: isoformat_def format_offset_def valid_datetime_def
        Y_def M_def D_def H_def Mi_def S_def U_def T_def A_def)
  have l10: "length A = 10"
    by (simp add: A_def len)
  have t10: "take 10 (isoformat d) = A"
    by (simp add: iso l10)
  have d11: "drop 11 (isoformat d) = T"
    by (simp add: iso l10)
  have n10: "length (isoformat d) \<noteq> 10"
    by (simp add: iso l10)
  have pd: "parse_date (take 10 (isoformat d)) = Some (year d, month d, day d)"
    unfolding t10 A_def
    using parse_date_concat [OF len(1) len(2) len(3) dig(1) dig(2) dig(3)]
    by (simp add: val)
  have pt: "parse_time (drop 11 (isoformat d)) =
              Some (hour d, minute d, second d, microsecond d)"
  proof (cases "microsecond d = 0")
    case True
    then show ?thesis
      unfolding d11
      using parse_time_seconds [OF len(4) len(5) len(6) dig(4) dig(5) dig(6)]
      by (simp add: T_def val)
  next
    case False
    then show ?thesis
      unfolding d11
      using parse_time_micros [OF len(4) len(5) len(6) len(7) dig(4) dig(5) dig(6) dig(7)]
      by (simp add: T_def val)
  qed
  show ?thesis
    using assms by (simp add: naive_isoformat_def pd pt n10 valid_datetime_def)
qed

lemma fromisoformat_isoformat:
  "valid_datetime d \<Longrightarrow> fromisoformat lib (isoformat d) = Inr d"
  by (simp add: fromisoformat_def naive_isoformat_isoformat)

lemma canonical_timestamp_isoformat:
  "valid_datetime d \<Longrightarrow> canonical_timestamp lib (isoformat d)"
  by (simp add: canonical_timestamp_def fromisoformat_isoformat)

text \<open>On a string that is not a naive form the answer is the library's.\<close>

lemma fromisoformat_other:
  "naive_isoformat s = None \<Longrightarrow> fromisoformat lib s = lib s"
  by (simp add: fromisoformat_def)

subsection \<open>Conversion between mappings and records\<close>

lemma category_name_getitem: "ProductCategory_getitem s = Inr c \<Longrightarrow> category_name c = s"
  by (auto simp: ProductCategory_getitem_def all_categories_def split: if_splits)

lemma getitem_category_name: "ProductCategory_getitem (category_name c) = Inr c"
  by (cases c) (simp_all add: ProductCategory_getitem_def all_categories_def)

text \<open>A record with valid timestamps survives the conversion to a mapping and back.\<close>

lemma product_from_dict_to_dict:
  "valid_datetime (created_at p) \<Longrightarrow> valid_datetime (updated_at p) \<Longrightarrow>
   product_from_dict lib (product_to_dict p) = Inr p"
  by (simp add: product_from_dict_def product_to_dict_def bind_err_def getitem_def
      getitem_category_name fromisoformat_isoformat)

lemma transaction_from_dict_to_dict:
  "valid_datetime (timestamp t) \<Longrightarrow>
   transaction_from_dict lib (transaction_to_dict t) = Inr t"
  by (simp add: transaction_from_dict_def transaction_to_dict_def bind_err_def getitem_def
      fromisoformat_isoformat)

lemma example_timestamps:
  "valid_datetime example_time"
  "isoformat example_time = ''2024-01-15T10:30:00''"
  "isoformat (example_time\<lparr>hour := 0, minute := 0\<rparr>) = ''2024-01-15T00:00:00''"
  "isoformat (example_time\<lparr>utcoffset := Some 7200000000\<rparr>) = ''2024-01-15T10:30:00+02:00''"
  "naive_isoformat ''2024-01-15'' = Some (example_time\<lparr>hour := 0, minute := 0\<rparr>)"
  "naive_isoformat ''yesterday'' = None"
  "naive_isoformat ''2024-01-15T10:30:00+02:00'' = None"
  by (simp_all add: valid_datetime_def isoformat_def format_offset_def zpad_def str_nat.simps
      digit_char_def naive_isoformat_def parse_date_def parse_time_def slice_def all_digits_def
      is_digit_def digits_val_def days_in_month_def is_leap_def example_time_def Let_def)

lemma example_timestamps_parsed:
  "fromisoformat lib ''2024-01-15T10:30:00'' = Inr example_time"
  "fromisoformat lib ''2024-01-15'' = Inr (example_time\<lparr>hour := 0, minute := 0\<rparr>)"
  "fromisoformat lib ''yesterday'' = lib ''yesterday''"
  "fromisoformat lib ''2024-01-15T10:30:00+02:00'' = lib ''2024-01-15T10:30:00+02:00''"
  using fromisoformat_isoformat [OF example_timestamps(1), of lib]
  by (simp_all add: example_timestamps fromisoformat_def)

lemma example_categories:
  "ProductCategory_getitem ''FOOD'' = Inr FOOD"
  "ProductCategory_getitem ''food'' = Inl (KeyError ''food'')"
  by (simp_all add: ProductCategory_getitem_def all_categories_def)

lemma example_conversions:
  "product_from_dict lib example_product_dict = Inr example_product"
  "product_from_dict lib date_only_product_dict =
     Inr (example_product\<lparr>created_at := example_time\<lparr>hour := 0, minute := 0\<rparr>\<rparr>)"
  "transaction_from_dict lib example_transaction_dict = Inr example_transaction"
  "transaction_from_dict lib (example_transaction_dict\<lparr>d_notes := None\<rparr>) =
     Inr (example_transaction\<lparr>notes' := []\<rparr>)"
  "transaction_from_dict lib (example_transaction_dict\<lparr>d_transaction_type := Some ''refund''\<rparr>) =
     Inr (example_transaction\<lparr>transaction_type := ''refund''\<rparr>)"
  by (simp_all add: product_from_dict_def transaction_from_dict_def bind_err_def getitem_def
      example_product_dict_def date_only_product_dict_def example_transaction_dict_def
      example_product_def example_transaction_def example_timestamps_parsed
      example_categories)

lemma example_well_formed:
  "well_formed_product_dict (canonical_timestamp lib) example_product_dict"
  "well_formed_product_dict (valid_timestamp lib) date_only_product_dict"
  "well_formed_transaction_dict (canonical_timestamp lib) example_transaction_dict"
  "\<not> well_formed_product_dict (valid_timestamp lib)
       (example_product_dict\<lparr>d_category := Some ''food''\<rparr>)"
  "\<not> valid_timestamp lib_rejecting ''yesterday''"
  by (simp_all add: well_formed_product_dict_def well_formed_transaction_dict_def
      valid_category_name_def valid_timestamp_def canonical_timestamp_def
      valid_transaction_types_def example_product_dict_def date_only_product_dict_def
      example_transaction_dict_def example_timestamps example_timestamps_parsed
      example_categories lib_rejecting_def)

text \<open>
  A timestamp with a UTC offset is accepted when the library accepts it, the record holds
  the aware timestamp, and the mapping written from the record carries the same string.
\<close>

lemma transaction_with_offset_accepted:
  "transaction_from_dict lib_with_offset
     (example_transaction_dict\<lparr>d_timestamp := Some ''2024-01-15T10:30:00+02:00''\<rparr>) =
     Inr (example_transaction\<lparr>timestamp := example_time\<lparr>utcoffset := Some 7200000000\<rparr>\<rparr>)"
  "transaction_to_dict
     (example_transaction\<lparr>timestamp := example_time\<lparr>utcoffset := Some 7200000000\<rparr>\<rparr>) =
     example_transaction_dict\<lparr>d_timestamp := Some ''2024-01-15T10:30:00+02:00''\<rparr>"
  by (simp_all add: transaction_from_dict_def transaction_to_dict_def bind_err_def getitem_def
      example_transaction_dict_def example_transaction_def example_timestamps_parsed
      example_timestamps lib_with_offset_def)

text \<open>
  C8, as the claim states it, fails: a calendar date is a valid ISO-8601 timestamp that
  \<open>fromisoformat\<close> accepts, and \<open>isoformat\<close> writes it back with a time part, so the
  mapping that comes back differs from the one given, whatever the library does with the
  strings that are not naive forms.
\<close>

theorem round_trip_date_only_counterexample:
  "\<forall>lib. well_formed_product_dict (valid_timestamp lib) date_only_product_dict \<and>
     (\<exists>p. product_from_dict lib date_only_product_dict = Inr p \<and>
          d_created_at (product_to_dict p) = Some ''2024-01-15T00:00:00'' \<and>
          product_to_dict p \<noteq> date_only_product_dict)"
proof
  fix lib
  let ?p = "example_product\<lparr>created_at := example_time\<lparr>hour := 0, minute := 0\<rparr>\<rparr>"
  have t: "d_created_at (product_to_dict ?p) = Some ''2024-01-15T00:00:00''"
    by (simp add: product_to_dict_def example_timestamps)
  have n: "d_created_at date_only_product_dict \<noteq> Some ''2024-01-15T00:00:00''"
    by (simp add: date_only_product_dict_def)
  from t n have "product_to_dict ?p \<noteq> date_only_product_dict"
    by auto
  with example_well_formed(2) [of lib] example_conversions(2) [of lib] t
  show "well_formed_product_dict (valid_timestamp lib) date_only_product_dict \<and>
     (\<exists>p. product_from_dict lib date_only_product_dict = Inr p \<and>
          d_created_at (product_to_dict p) = Some ''2024-01-15T00:00:00'' \<and>
          product_to_dict p \<noteq> date_only_product_dict)"
    by simp
qed

text \<open>
  C8, amended. For every product mapping and every transaction mapping that is well
  formed and whose timestamps are canonical (\<open>isoformat\<close> of the parsed timestamp is the
  string itself), the conversion to a record succeeds and converting the record back gives
  the mapping itself.
\<close>

theorem from_dict_to_dict_round_trip:
  "(well_formed_product_dict (canonical_timestamp lib) m \<longrightarrow>
      (\<exists>p. product_from_dict lib m = Inr p \<and> product_to_dict p = m)) \<and>
   (well_formed_transaction_dict (canonical_timestamp lib) m' \<longrightarrow>
      (\<exists>t. transaction_from_dict lib m' = Inr t \<and> transaction_to_dict t = m'))"
proof (intro conjI impI)
  assume "well_formed_product_dict (canonical_timestamp lib) m"
  then show "\<exists>p. product_from_dict lib m = Inr p \<and> product_to_dict p = m"
    by (cases m)
       (auto simp: well_formed_product_dict_def valid_category_name_def canonical_timestamp_def
          product_from_dict_def product_to_dict_def bind_err_def getitem_def
          category_name_getitem split: sum.splits option.splits)
next
  assume "well_formed_transaction_dict (canonical_timestamp lib) m'"
  then show "\<exists>t. transaction_from_dict lib m' = Inr t \<and> transaction_to_dict t = m'"
    by (cases m')
       (auto simp: well_formed_transaction_dict_def canonical_timestamp_def
          transaction_from_dict_def transaction_to_dict_def bind_err_def getitem_def
          split: sum.splits option.splits)
qed

theorem from_dict_to_dict_round_trip_witness:
  "\<forall>lib. product_from_dict lib example_product_dict = Inr example_product \<and>
     product_to_dict example_product = example_product_dict \<and>
     transaction_from_dict lib example_transaction_dict = Inr example_transaction \<and>
     transaction_to_dict example_transaction = example_transaction_dict"
proof
  fix lib
  from from_dict_to_dict_round_trip [of lib example_product_dict example_transaction_dict]
    example_well_formed(1) [of lib] example_well_formed(3) [of lib]
    example_conversions(1) [of lib] example_conversions(3) [of lib]
  show "product_from_dict lib example_product_dict = Inr example_product \<and>
     product_to_dict example_product = example_product_dict \<and>
     transaction_from_dict lib example_transaction_dict = Inr example_transaction \<and>
     transaction_to_dict example_transaction = example_transaction_dict"
    by simp
qed

text \<open>
  C9, as the claim states it, fails: a transaction mapping without \<open>notes\<close> is accepted
  (the notes default to the empty string), and so is one whose transaction type is not one
  of the three kinds, whatever the library does with the strings that are not naive forms.
\<close>

theorem transaction_from_dict_lenient_counterexample:
  "\<forall>lib. transaction_from_dict lib (example_transaction_dict\<lparr>d_notes := None\<rparr>) =
       Inr (example_transaction\<lparr>notes' := []\<rparr>) \<and>
     transaction_from_dict lib (example_transaction_dict\<lparr>d_transaction_type := Some ''refund''\<rparr>) =
       Inr (example_transaction\<lparr>transaction_type := ''refund''\<rparr>)"
  by (simp add: example_conversions)

text \<open>
  C9, amended. The conversion of a product mapping fails whenever the mapping is not well
  formed: a field of the layout is absent, the category is not the name of a member, or a
  timestamp is not accepted by \<open>fromisoformat\<close>, that is, it is not a naive form and the
  library rejects it. The conversion of a transaction mapping fails whenever one of
  \<open>transaction_id\<close>, \<open>product_sku\<close>, \<open>quantity\<close>, \<open>transaction_type\<close>, \<open>timestamp\<close> is absent or
  the timestamp is not accepted.
\<close>

theorem from_dict_rejects_malformed:
  "(\<not> well_formed_product_dict (valid_timestamp lib) m \<longrightarrow>
      (\<exists>e. product_from_dict lib m = Inl e)) \<and>
   (d_transaction_id m' = None \<or> d_product_sku m' = None \<or> d_quantity m' = None \<or>
    d_transaction_type m' = None \<or>
    (case d_timestamp m' of None \<Rightarrow> True | Some s \<Rightarrow> \<not> valid_timestamp lib s)
    \<longrightarrow> (\<exists>e. transaction_from_dict lib m' = Inl e))"
proof (intro conjI impI)
  assume "\<not> well_formed_product_dict (valid_timestamp lib) m"
  then show "\<exists>e. product_from_dict lib m = Inl e"
    by (cases m)
       (auto simp: well_formed_product_dict_def valid_category_name_def valid_timestamp_def
          product_from_dict_def bind_err_def getitem_def split: sum.splits option.splits)
next
  assume "d_transaction_id m' = None \<or> d_product_sku m' = None \<or> d_quantity m' = None \<or>
    d_transaction_type m' = None \<or>
    (case d_timestamp m' of None \<Rightarrow> True | Some s \<Rightarrow> \<not> valid_timestamp lib s)"
  then show "\<exists>e. transaction_from_dict lib m' = Inl e"
    by (cases m')
       (auto simp: valid_timestamp_def transaction_from_dict_def bind_err_def getitem_def
          split: sum.splits option.splits)
qed

theorem from_dict_rejects_malformed_witness:
  "(\<exists>e. product_from_dict lib_with_offset (example_product_dict\<lparr>d_price := None\<rparr>) = Inl e) \<and>
   (\<exists>e. product_from_dict lib_with_offset
          (example_product_dict\<lparr>d_category := Some ''food''\<rparr>) = Inl e) \<and>
   (\<exists>e. transaction_from_dict lib_rejecting
          (example_transaction_dict\<lparr>d_timestamp := Some ''yesterday''\<rparr>) = Inl e)"
proof -
  have a: "\<not> well_formed_product_dict (valid_timestamp lib_with_offset)
               (example_product_dict\<lparr>d_price := None\<rparr>)"
    by (simp add: well_formed_product_dict_def example_product_dict_def)
  from from_dict_rejects_malformed
    [of lib_with_offset "example_product_dict\<lparr>d_price := None\<rparr>" example_transaction_dict] a
  have "\<exists>e. product_from_dict lib_with_offset (example_product_dict\<lparr>d_price := None\<rparr>) = Inl e"
    by simp
  moreover
  from from_dict_rejects_malformed
    [of lib_with_offset "example_product_dict\<lparr>d_category := Some ''food''\<rparr>"
        example_transaction_dict]
    example_well_formed(4) [of lib_with_offset]
  have "\<exists>e. product_from_dict lib_with_offset
              (example_product_dict\<lparr>d_category := Some ''food''\<rparr>) = Inl e"
    by simp
  moreover
  from from_dict_rejects_malformed
    [of lib_rejecting example_product_dict
        "example_transaction_dict\<lparr>d_timestamp := Some ''yesterday''\<rparr>"]
    example_well_formed(5)
  have "\<exists>e. transaction_from_dict lib_rejecting
              (example_transaction_dict\<lparr>d_timestamp := Some ''yesterday''\<rparr>) = Inl e"
    by simp
  ultimately show ?thesis by simp
qed

end
